theory Spec2Isabelle
  imports Complex_Main
begin

section \<open>Data model of \<open>src/App.tsx\<close>\<close>

text \<open>
  The component \<open>App\<close> keeps its data in two places: React state hooks
  (\<open>gameState\<close>, \<open>levelIdx\<close>, \<open>mathStep\<close>, \<open>mathInput\<close>, \<open>mathError\<close>,
  \<open>chargeProgress\<close>, \<open>chargeQuestion\<close>), and the mutable object \<open>stateRef.current\<close>
  together with the two mirror refs \<open>gameStateRef\<close> and \<open>levelIdxRef\<close>. The embedding
  is by explicit state passing over one record holding all of them.

  JavaScript numbers are modelled as follows: coordinates, speeds and timers are
  \<open>real\<close> (IEEE rounding, NaN and the infinities are outside the model); numerators,
  the power-up count and everything that the code only ever adds small integers to is
  \<open>int\<close>; array indices and counters that start at 0 and are only incremented are
  \<open>nat\<close>. Record fields carry a prefix where the source's field name (\<open>x\<close>, \<open>y\<close>,
  \<open>id\<close>, \<open>d\<close>, ...) is shared between interfaces or is a HOL constant.
\<close>

datatype GameState = Start | Playing | MathChallenge | LevelComplete | GameComplete | ChargeUp

record Level =
  level_id :: int
  denominator :: int
  targetNumerator :: int
  numShips :: int
  speedMultiplier :: real

definition LEVELS :: "Level list" where
  "LEVELS =
    [ \<lparr>level_id = 1, denominator = 3, targetNumerator = 3, numShips = 1, speedMultiplier = 8 / 10\<rparr>,
      \<lparr>level_id = 2, denominator = 4, targetNumerator = 4, numShips = 1, speedMultiplier = 9 / 10\<rparr>,
      \<lparr>level_id = 3, denominator = 5, targetNumerator = 5, numShips = 1, speedMultiplier = 1\<rparr>,
      \<lparr>level_id = 4, denominator = 6, targetNumerator = 6, numShips = 1, speedMultiplier = 11 / 10\<rparr>,
      \<lparr>level_id = 5, denominator = 7, targetNumerator = 7, numShips = 1, speedMultiplier = 12 / 10\<rparr>,
      \<lparr>level_id = 6, denominator = 8, targetNumerator = 8, numShips = 1, speedMultiplier = 13 / 10\<rparr>,
      \<lparr>level_id = 7, denominator = 4, targetNumerator = 8, numShips = 2, speedMultiplier = 14 / 10\<rparr>,
      \<lparr>level_id = 8, denominator = 5, targetNumerator = 10, numShips = 2, speedMultiplier = 15 / 10\<rparr>,
      \<lparr>level_id = 9, denominator = 6, targetNumerator = 12, numShips = 2, speedMultiplier = 16 / 10\<rparr>,
      \<lparr>level_id = 10, denominator = 8, targetNumerator = 24, numShips = 3, speedMultiplier = 17 / 10\<rparr>,
      \<lparr>level_id = 11, denominator = 3, targetNumerator = 12, numShips = 4, speedMultiplier = 18 / 10\<rparr> ]"

datatype Op = Plus | Minus

record ChargeQuestion =
  q_n1 :: int
  q_n2 :: int
  q_op :: Op
  q_d :: int

record Gem =
  gem_id :: real
  gem_x :: real
  gem_y :: real
  gem_numerator :: int
  gem_speed :: real
  gem_radius :: real

record Obstacle =
  obs_id :: real
  obs_x :: real
  obs_y :: real
  obs_speed :: real
  obs_radius :: real
  obs_rotation :: real
  obs_rotSpeed :: real

record Star =
  star_x :: real
  star_y :: real
  star_speed :: real
  star_size :: real

record Shockwave =
  sw_x :: real
  sw_y :: real
  sw_radius :: real
  sw_maxRadius :: real
  sw_alpha :: real

text \<open>
  The fields from \<open>shipX\<close> to \<open>powerUps\<close> are those of \<open>stateRef.current\<close>
  (lines 89-106), in the source's order; the rest are the hooks and refs of lines 71-87.
  \<open>keys\<close> is the \<open>Record<string, boolean>\<close>: a key that was never pressed is absent
  (\<open>undefined\<close>, falsy).
\<close>

record App =
  shipX :: real
  shipY :: real
  currentNumerator :: int
  gems :: "Gem list"
  obstacles :: "Obstacle list"
  stars :: "Star list"
  shockwaves :: "Shockwave list"
  collectedHistory :: "int list"
  keys :: "string \<rightharpoonup> bool"
  lastTime :: real
  gemSpawnTimer :: real
  obstacleSpawnTimer :: real
  flashTimer :: real
  bgmTimer :: real
  bgmStep :: nat
  powerUps :: int
  gameState :: GameState
  levelIdx :: nat
  mathStep :: nat
  mathInput :: string
  mathError :: bool
  chargeProgress :: nat
  chargeQuestion :: ChargeQuestion
  gameStateRef :: GameState
  levelIdxRef :: nat

text \<open>
  What a handler reads from the browser: the window size, \<open>performance.now()\<close>, the
  canvas behind \<open>canvasRef.current\<close> (\<open>None\<close> while it is not mounted; otherwise its
  width and height), and \<open>Math.random()\<close>, whose \<open>k\<close>-th call within the handler
  returns \<open>random k\<close>.
\<close>

record Env =
  innerWidth :: real
  innerHeight :: real
  now :: real
  canvas :: "(real \<times> real) option"
  random :: "nat \<Rightarrow> real"

text \<open>
  The only exception the component can raise by itself: reading a property of
  \<open>LEVELS[i]\<close> when \<open>i\<close> is past the end of the catalog (\<open>undefined\<close>).
  The audio calls of \<open>./audio\<close> catch their own exceptions and return nothing the
  component reads, so they are left out.
\<close>

datatype error = TypeError

definition getLevel :: "nat \<Rightarrow> error + Level" where
  "getLevel i = (if i < length LEVELS then Inr (LEVELS ! i) else Inl TypeError)"

section \<open>\<open>parseInt\<close>\<close>

text \<open>
  \<open>parseInt(string)\<close> with no radix, after ECMA-262: leading white space is skipped,
  an optional sign is read, a prefix \<open>0x\<close> or \<open>0X\<close> selects radix 16 (radix 10
  otherwise), and the longest prefix of digits of that radix is the value; with no such
  digit the result is NaN, here \<open>None\<close>. Strings are byte strings, so the white space
  recognised is the ASCII part of \<open>StrWhiteSpaceChar\<close>. The value is an exact integer;
  the source holds it in a double, which agrees on every value up to \<open>2^53\<close>.
\<close>

definition isWhiteSpace :: "char \<Rightarrow> bool" where
  "isWhiteSpace c = (c \<in> set [CHR 0x09, CHR 0x0A, CHR 0x0B, CHR 0x0C, CHR 0x0D, CHR '' ''])"

definition digitValue :: "char \<Rightarrow> nat option" where
  "digitValue c =
     (let n = (of_char c :: nat) in
      if 48 \<le> n \<and> n \<le> 57 then Some (n - 48)
      else if 97 \<le> n \<and> n \<le> 122 then Some (n - 87)
      else if 65 \<le> n \<and> n \<le> 90 then Some (n - 55)
      else None)"

definition isRadixDigit :: "nat \<Rightarrow> char \<Rightarrow> bool" where
  "isRadixDigit R c = (case digitValue c of None \<Rightarrow> False | Some v \<Rightarrow> v < R)"

definition digitsValue :: "nat \<Rightarrow> string \<Rightarrow> int" where
  "digitsValue R Z =
     foldl (\<lambda>acc c. acc * int R + (case digitValue c of None \<Rightarrow> 0 | Some v \<Rightarrow> int v)) 0 Z"

definition parseInt :: "string \<Rightarrow> int option" where
  "parseInt inputString =
     (let S = dropWhile isWhiteSpace inputString;
          sign = (case S of c # _ \<Rightarrow> if c = CHR ''-'' then - 1 else (1::int) | [] \<Rightarrow> 1);
          S1 = (case S of c # r \<Rightarrow> if c = CHR ''+'' \<or> c = CHR ''-'' then r else S | [] \<Rightarrow> S);
          hex = (take 2 S1 = ''0x'' \<or> take 2 S1 = ''0X'');
          R = (if hex then 16 else 10);
          S2 = (if hex then drop 2 S1 else S1);
          Z = takeWhile (isRadixDigit R) S2
      in if Z = [] then None else Some (sign * digitsValue R Z))"

section \<open>Progress after a gem collision (\<open>update\<close>, lines 336-369)\<close>

text \<open>
  The body of the collision branch of the gem loop, in the source's two halves:
  \<open>gemAccumulate\<close> is lines 336-337 (add the numerator, append it to the history),
  \<open>gemOutcome\<close> is lines 345-369 (underflow clamp, exact match, overshoot), and
  \<open>gemCollect\<close> is the one after the other. The level is \<open>LEVELS[levelIdxRef.current]\<close>,
  read once at the top of \<open>update\<close>.
\<close>

definition gemAccumulate :: "Gem \<Rightarrow> App \<Rightarrow> App" where
  "gemAccumulate gem st =
     st\<lparr>currentNumerator := currentNumerator st + gem_numerator gem,
        collectedHistory := collectedHistory st @ [gem_numerator gem]\<rparr>"

definition underflowClamp :: "App \<Rightarrow> App" where
  "underflowClamp st =
     (if currentNumerator st < 0
      then st\<lparr>currentNumerator := 0, collectedHistory := []\<rparr>
      else st)"

definition isLastLevel :: "App \<Rightarrow> bool" where
  "isLastLevel st = (int (levelIdxRef st) = int (length LEVELS) - 1)"

definition completeLevel :: "App \<Rightarrow> App" where
  "completeLevel st =
     (if isLastLevel st then st\<lparr>gameState := GameComplete\<rparr>
      else st\<lparr>gameState := LevelComplete\<rparr>)"

definition targetCheck :: "Level \<Rightarrow> App \<Rightarrow> App" where
  "targetCheck level st =
     (if currentNumerator st = targetNumerator level then
        (if length (collectedHistory st) \<le> 1 then completeLevel st
         else st\<lparr>mathStep := 1, mathInput := [], mathError := False,
                 gameState := MathChallenge\<rparr>)
      else if currentNumerator st > targetNumerator level then
        st\<lparr>currentNumerator := 0, collectedHistory := [], flashTimer := 300\<rparr>
      else st)"

definition gemOutcome :: "Level \<Rightarrow> App \<Rightarrow> App" where
  "gemOutcome level st = targetCheck level (underflowClamp st)"

definition gemCollect :: "Level \<Rightarrow> Gem \<Rightarrow> App \<Rightarrow> App" where
  "gemCollect level gem st = gemOutcome level (gemAccumulate gem st)"

section \<open>The math challenge (\<open>handleMathSubmit\<close>, lines 595-619)\<close>

text \<open>
  \<open>history[mathStep]\<close> past the end of the array is \<open>undefined\<close>, the sum with it is
  NaN, and \<open>===\<close> with NaN is false: \<open>mathExpected\<close> is \<open>None\<close> there, and
  \<open>answerIs\<close> holds only for two equal numbers.
\<close>

definition mathExpected :: "int list \<Rightarrow> nat \<Rightarrow> int option" where
  "mathExpected history step =
     (let currentGem = (if step < length history then Some (history ! step) else None);
          previousSum = foldl (\<lambda>a b. a + b) 0 (take step history)
      in map_option (\<lambda>g. previousSum + g) currentGem)"

definition answerIs :: "string \<Rightarrow> int option \<Rightarrow> bool" where
  "answerIs text expected =
     (case (parseInt text, expected) of (Some a, Some e) \<Rightarrow> a = e | _ \<Rightarrow> False)"

definition handleMathSubmit :: "App \<Rightarrow> App" where
  "handleMathSubmit st =
     (let history = collectedHistory st;
          expected = mathExpected history (mathStep st)
      in if answerIs (mathInput st) expected then
           (if mathStep st + 1 \<ge> length history then completeLevel st
            else st\<lparr>mathStep := mathStep st + 1, mathInput := [], mathError := False\<rparr>)
         else st\<lparr>mathError := True\<rparr>)"

section \<open>The keyboard (\<open>handleKeyDown\<close>, \<open>handleKeyUp\<close>, lines 122-149)\<close>

text \<open>\<open>toLowerCase\<close> on the ASCII letters, which is all the key names use.\<close>

definition toLowerCase :: "string \<Rightarrow> string" where
  "toLowerCase s =
     map (\<lambda>c. let n = (of_char c :: nat) in
               if 65 \<le> n \<and> n \<le> 90 then char_of (n + 32) else c) s"

definition handleKeyDown :: "Env \<Rightarrow> string \<Rightarrow> App \<Rightarrow> App" where
  "handleKeyDown env key st =
     (let st1 = st\<lparr>keys := (keys st)(toLowerCase key \<mapsto> True)\<rparr>
      in if key = '' '' \<and> gameStateRef st1 = Playing then
           (if powerUps st1 > 0 then
              st1\<lparr>powerUps := powerUps st1 - 1,
                  shockwaves := shockwaves st1 @
                    [\<lparr>sw_x = shipX st1, sw_y = shipY st1, sw_radius = 0,
                      sw_maxRadius = max (innerWidth env) (innerHeight env), sw_alpha = 1\<rparr>],
                  obstacles := []\<rparr>
            else st1)
         else st1)"

definition handleKeyUp :: "string \<Rightarrow> App \<Rightarrow> App" where
  "handleKeyUp key st = st\<lparr>keys := (keys st)(toLowerCase key \<mapsto> False)\<rparr>"

section \<open>The physics step (\<open>update\<close>, lines 217-379)\<close>

definition bindE :: "error + 'a \<Rightarrow> ('a \<Rightarrow> error + 'b) \<Rightarrow> error + 'b" where
  "bindE r f = (case r of Inl e \<Rightarrow> Inl e | Inr a \<Rightarrow> f a)"

text \<open>
  \<open>for (let i = n - 1; i >= 0; i--) body(i)\<close> is \<open>loopDown body n\<close>. A body that
  reads an array element past the end fails as the source would (a property of
  \<open>undefined\<close>), and the failure ends the loop.
\<close>

fun loopDown :: "(nat \<Rightarrow> 's \<Rightarrow> error + 's) \<Rightarrow> nat \<Rightarrow> 's \<Rightarrow> error + 's" where
  "loopDown body 0 st = Inr st"
| "loopDown body (Suc i) st = bindE (body i st) (loopDown body i)"

text \<open>\<open>xs.splice(i, 1)\<close>\<close>

definition splice1 :: "nat \<Rightarrow> 'a list \<Rightarrow> 'a list" where
  "splice1 i xs = take i xs @ drop (Suc i) xs"

text \<open>Lines 224-236, without the tones: the timer and the step counter.\<close>

definition bgmBlock :: "Level \<Rightarrow> real \<Rightarrow> App \<Rightarrow> App" where
  "bgmBlock level dt st =
     (let st1 = st\<lparr>bgmTimer := bgmTimer st - dt\<rparr>
      in if bgmTimer st1 \<le> 0 then
           (let speed = max 120 (250 - real_of_int (level_id level) * 10)
            in st1\<lparr>bgmStep := bgmStep st1 + 1, bgmTimer := speed\<rparr>)
         else st1)"

definition keyHeld :: "App \<Rightarrow> string \<Rightarrow> bool" where
  "keyHeld st k = (keys st k = Some True)"

text \<open>Lines 239-243.\<close>

definition moveShip :: "real \<Rightarrow> App \<Rightarrow> App" where
  "moveShip dt st =
     (let moveSpeed = 6 / 10 * dt;
          st1 = (if keyHeld st ''arrowup'' \<or> keyHeld st ''w''
                 then st\<lparr>shipY := shipY st - moveSpeed\<rparr> else st);
          st2 = (if keyHeld st1 ''arrowdown'' \<or> keyHeld st1 ''s''
                 then st1\<lparr>shipY := shipY st1 + moveSpeed\<rparr> else st1);
          st3 = (if keyHeld st2 ''arrowleft'' \<or> keyHeld st2 ''a''
                 then st2\<lparr>shipX := shipX st2 - moveSpeed\<rparr> else st2);
          st4 = (if keyHeld st3 ''arrowright'' \<or> keyHeld st3 ''d''
                 then st3\<lparr>shipX := shipX st3 + moveSpeed\<rparr> else st3)
      in st4)"

text \<open>Lines 245-247: \<open>radius\<close>, \<open>playerWidth\<close>, \<open>playerHeight\<close>.\<close>

definition radius :: real where
  "radius = 35"

definition playerWidth :: "Level \<Rightarrow> real" where
  "playerWidth level = real_of_int (numShips level) * radius * (25 / 10)"

definition playerHeight :: real where
  "playerHeight = radius * 2"

text \<open>Lines 249-252; a canvas is the pair of its width and its height.\<close>

definition clampShip :: "Level \<Rightarrow> real \<times> real \<Rightarrow> App \<Rightarrow> App" where
  "clampShip level cv st =
     (let st1 = (if shipX st < playerWidth level / 2
                 then st\<lparr>shipX := playerWidth level / 2\<rparr> else st);
          st2 = (if shipX st1 > fst cv - playerWidth level / 2
                 then st1\<lparr>shipX := fst cv - playerWidth level / 2\<rparr> else st1);
          st3 = (if shipY st2 < 100 + playerHeight / 2
                 then st2\<lparr>shipY := 100 + playerHeight / 2\<rparr> else st2);
          st4 = (if shipY st3 > snd cv - playerHeight / 2
                 then st3\<lparr>shipY := snd cv - playerHeight / 2\<rparr> else st3)
      in st4)"

text \<open>
  Lines 255-261. The result carries the number of \<open>Math.random()\<close> calls made so
  far, which the spawners continue from.
\<close>

fun updateStars :: "(nat \<Rightarrow> real) \<Rightarrow> real \<Rightarrow> real \<times> real \<Rightarrow> nat \<Rightarrow> Star list \<Rightarrow> Star list \<times> nat" where
  "updateStars rnd dt cv k [] = ([], k)"
| "updateStars rnd dt cv k (star # rest) =
     (let star1 = star\<lparr>star_y := star_y star + star_speed star * (dt / 16)\<rparr>
      in if star_y star1 > snd cv then
           (let star2 = star1\<lparr>star_y := 0, star_x := rnd k * fst cv\<rparr>;
                (rest', k') = updateStars rnd dt cv (k + 1) rest
            in (star2 # rest', k'))
         else
           (let (rest', k') = updateStars rnd dt cv k rest
            in (star1 # rest', k')))"

text \<open>Lines 264-266.\<close>

definition flashBlock :: "real \<Rightarrow> App \<Rightarrow> App" where
  "flashBlock dt st =
     (if flashTimer st > 0 then st\<lparr>flashTimer := flashTimer st - dt\<rparr> else st)"

text \<open>
  Lines 269-276. The quotient \<open>sw.radius / sw.maxRadius\<close> is the one division by a
  value that can be zero (a window of size 0). There IEEE gives \<open>+Infinity\<close> for a
  positive radius, so \<open>alpha\<close> is \<open>-Infinity\<close> and the shockwave is removed, and NaN
  or \<open>-Infinity\<close> otherwise, so \<open>alpha <= 0\<close> is false and it stays; \<open>swExpired\<close>
  decides so, and the \<open>alpha\<close> of such a shockwave is not a number of the model.
\<close>

definition swDecay :: "real \<Rightarrow> Shockwave \<Rightarrow> Shockwave" where
  "swDecay dt sw =
     (let sw1 = sw\<lparr>sw_radius := sw_radius sw + dt * (25 / 10)\<rparr>
      in sw1\<lparr>sw_alpha := 1 - sw_radius sw1 / sw_maxRadius sw1\<rparr>)"

definition swExpired :: "Shockwave \<Rightarrow> bool" where
  "swExpired sw = (if sw_maxRadius sw = 0 then sw_radius sw > 0 else sw_alpha sw \<le> 0)"

definition swBody :: "real \<Rightarrow> nat \<Rightarrow> App \<Rightarrow> error + App" where
  "swBody dt i st =
     (if i < length (shockwaves st) then
        (let sw = swDecay dt (shockwaves st ! i);
             st1 = st\<lparr>shockwaves := (shockwaves st)[i := sw]\<rparr>
         in if swExpired sw then Inr (st1\<lparr>shockwaves := splice1 i (shockwaves st1)\<rparr>)
            else Inr st1)
      else Inl TypeError)"

text \<open>
  \<open>spawnGem\<close>, lines 158-171. The five \<open>Math.random()\<close> calls are, in the order of
  evaluation: the sign, the magnitude, \<open>id\<close>, \<open>x\<close> and \<open>speed\<close>.
\<close>

definition spawnGem :: "(nat \<Rightarrow> real) \<Rightarrow> nat \<Rightarrow> Level \<Rightarrow> real \<Rightarrow> Gem" where
  "spawnGem rnd k level canvasWidth =
     (let isNegative = (rnd k < 3 / 10);
          num0 = \<lfloor>rnd (k + 1) * real_of_int (denominator level - 1)\<rfloor> + 1;
          num = (if isNegative then - num0 else num0)
      in \<lparr>gem_id = rnd (k + 2),
          gem_x = rnd (k + 3) * (canvasWidth - 80) + 40,
          gem_y = - 40,
          gem_numerator = num,
          gem_speed = (rnd (k + 4) * (15 / 10) + 15 / 10) * speedMultiplier level,
          gem_radius = 32\<rparr>)"

text \<open>Lines 279-283.\<close>

definition gemSpawnBlock :: "(nat \<Rightarrow> real) \<Rightarrow> Level \<Rightarrow> real \<times> real \<Rightarrow> real \<Rightarrow> App \<times> nat \<Rightarrow> App \<times> nat" where
  "gemSpawnBlock rnd level cv dt sk =
     (let st = fst sk; k = snd sk;
          st1 = st\<lparr>gemSpawnTimer := gemSpawnTimer st - dt\<rparr>
      in if gemSpawnTimer st1 \<le> 0 then
           (st1\<lparr>gems := gems st1 @ [spawnGem rnd k level (fst cv)],
                gemSpawnTimer := 1500 / speedMultiplier level\<rparr>, k + 5)
         else (st1, k))"

text \<open>Lines 286-298.\<close>

definition obstacleSpawnBlock :: "(nat \<Rightarrow> real) \<Rightarrow> Level \<Rightarrow> real \<times> real \<Rightarrow> real \<Rightarrow> App \<times> nat \<Rightarrow> App \<times> nat" where
  "obstacleSpawnBlock rnd level cv dt sk =
     (let st = fst sk; k = snd sk;
          st1 = st\<lparr>obstacleSpawnTimer := obstacleSpawnTimer st - dt\<rparr>
      in if obstacleSpawnTimer st1 \<le> 0 then
           (st1\<lparr>obstacles := obstacles st1 @
                  [\<lparr>obs_id = rnd k,
                    obs_x = rnd (k + 1) * (fst cv - 60) + 30,
                    obs_y = - 30,
                    obs_speed = (rnd (k + 2) * 2 + 2) * speedMultiplier level,
                    obs_radius = 20 + rnd (k + 3) * 15,
                    obs_rotation = 0,
                    obs_rotSpeed = (rnd (k + 4) - 5 / 10) * (1 / 10)\<rparr>],
                obstacleSpawnTimer := 2500 / speedMultiplier level\<rparr>, k + 5)
         else (st1, k))"

text \<open>
  The bounding-box test of lines 306-311 and 330-335, on the centre \<open>(x, y)\<close> and the
  radius \<open>r\<close> of the entity.
\<close>

definition hitsShip :: "Level \<Rightarrow> App \<Rightarrow> real \<Rightarrow> real \<Rightarrow> real \<Rightarrow> bool" where
  "hitsShip level st x y r =
     (y + r > shipY st - radius \<and>
      y - r < shipY st + radius \<and>
      x + r > shipX st - playerWidth level / 2 \<and>
      x - r < shipX st + playerWidth level / 2)"

text \<open>Lines 312-314: what an obstacle does to the run.\<close>

definition obstacleHit :: "App \<Rightarrow> App" where
  "obstacleHit st = st\<lparr>currentNumerator := 0, collectedHistory := [], flashTimer := 300\<rparr>"

text \<open>Lines 301-323, one iteration.\<close>

definition obsBody :: "Level \<Rightarrow> real \<times> real \<Rightarrow> real \<Rightarrow> nat \<Rightarrow> App \<Rightarrow> error + App" where
  "obsBody level cv dt i st =
     (if i < length (obstacles st) then
        (let obs0 = obstacles st ! i;
             obs1 = obs0\<lparr>obs_y := obs_y obs0 + obs_speed obs0 * (dt / 16)\<rparr>;
             obs = obs1\<lparr>obs_rotation := obs_rotation obs1 + obs_rotSpeed obs1 * (dt / 16)\<rparr>;
             st1 = st\<lparr>obstacles := (obstacles st)[i := obs]\<rparr>
         in if hitsShip level st1 (obs_x obs) (obs_y obs) (obs_radius obs) then
              (let st2 = obstacleHit st1
               in Inr (st2\<lparr>obstacles := splice1 i (obstacles st2)\<rparr>))
            else if obs_y obs > snd cv + 50 then
              Inr (st1\<lparr>obstacles := splice1 i (obstacles st1)\<rparr>)
            else Inr st1)
      else Inl TypeError)"

text \<open>Lines 326-378, one iteration.\<close>

definition gemBody :: "Level \<Rightarrow> real \<times> real \<Rightarrow> real \<Rightarrow> nat \<Rightarrow> App \<Rightarrow> error + App" where
  "gemBody level cv dt i st =
     (if i < length (gems st) then
        (let gem0 = gems st ! i;
             gem = gem0\<lparr>gem_y := gem_y gem0 + gem_speed gem0 * (dt / 16)\<rparr>;
             st1 = st\<lparr>gems := (gems st)[i := gem]\<rparr>
         in if hitsShip level st1 (gem_x gem) (gem_y gem) (gem_radius gem) then
              (let st2 = gemCollect level gem st1
               in Inr (st2\<lparr>gems := splice1 i (gems st2)\<rparr>))
            else if gem_y gem > snd cv + 50 then
              Inr (st1\<lparr>gems := splice1 i (gems st1)\<rparr>)
            else Inr st1)
      else Inl TypeError)"

text \<open>Lines 224-266: music timer, ship movement and clamping, stars, flash timer.\<close>

definition prelude :: "Env \<Rightarrow> Level \<Rightarrow> real \<times> real \<Rightarrow> real \<Rightarrow> App \<Rightarrow> App \<times> nat" where
  "prelude env level cv dt st =
     (let st1 = bgmBlock level dt st;
          st2 = moveShip dt st1;
          st3 = clampShip level cv st2;
          (stars', k1) = updateStars (random env) dt cv 0 (stars st3);
          st4 = st3\<lparr>stars := stars'\<rparr>
      in (flashBlock dt st4, k1))"

definition shockwaveLoop :: "real \<Rightarrow> App \<Rightarrow> error + App" where
  "shockwaveLoop dt st = loopDown (swBody dt) (length (shockwaves st)) st"

definition obstacleLoop :: "Level \<Rightarrow> real \<times> real \<Rightarrow> real \<Rightarrow> App \<Rightarrow> error + App" where
  "obstacleLoop level cv dt st = loopDown (obsBody level cv dt) (length (obstacles st)) st"

definition gemLoop :: "Level \<Rightarrow> real \<times> real \<Rightarrow> real \<Rightarrow> App \<Rightarrow> error + App" where
  "gemLoop level cv dt st = loopDown (gemBody level cv dt) (length (gems st)) st"

text \<open>The body of \<open>update\<close> once the canvas and the level are there.\<close>

definition updateWith :: "Env \<Rightarrow> Level \<Rightarrow> real \<times> real \<Rightarrow> real \<Rightarrow> App \<Rightarrow> error + App" where
  "updateWith env level cv dt st =
     (let sk5 = prelude env level cv dt st
      in bindE (shockwaveLoop dt (fst sk5)) (\<lambda>st6.
           let sk7 = gemSpawnBlock (random env) level cv dt (st6, snd sk5);
               sk8 = obstacleSpawnBlock (random env) level cv dt sk7
           in bindE (obstacleLoop level cv dt (fst sk8)) (gemLoop level cv dt)))"

text \<open>
  \<open>update\<close>. Without a canvas it returns at once. With one, an undefined level
  raises at \<open>level.id\<close> or at the latest at \<open>level.numShips\<close>, before any loop.
\<close>

definition update :: "Env \<Rightarrow> real \<Rightarrow> App \<Rightarrow> error + App" where
  "update env dt st =
     (case canvas env of
        None \<Rightarrow> Inr st
      | Some cv \<Rightarrow> bindE (getLevel (levelIdxRef st)) (\<lambda>level. updateWith env level cv dt st))"

section \<open>The game loop driver (\<open>loop\<close>, lines 536-546)\<close>

text \<open>
  \<open>draw\<close> only reads the state and is left out, as is the re-arming
  \<open>requestAnimationFrame\<close>, which delivers the next \<open>Frame\<close> event.
  \<open>frameDelta\<close> is lines 538-539.
\<close>

definition frameDelta :: "real \<Rightarrow> App \<Rightarrow> real" where
  "frameDelta time st =
     (let dt = time - lastTime st in if dt > 50 then 50 else dt)"

definition loop :: "Env \<Rightarrow> real \<Rightarrow> App \<Rightarrow> error + App" where
  "loop env time st =
     (if gameStateRef st = Playing then
        (let dt = frameDelta time st;
             st1 = st\<lparr>lastTime := time\<rparr>
         in update env dt st1)
      else Inr st)"

section \<open>Level transitions (\<open>startGame\<close>, \<open>nextLevel\<close>, lines 566-593)\<close>

definition startGame :: "Env \<Rightarrow> App \<Rightarrow> App" where
  "startGame env st =
     st\<lparr>levelIdx := 0,
        currentNumerator := 0,
        gems := [],
        obstacles := [],
        shockwaves := [],
        collectedHistory := [],
        shipX := innerWidth env / 2,
        shipY := innerHeight env - 80,
        lastTime := now env,
        bgmTimer := 0,
        powerUps := 0,
        gameState := Playing\<rparr>"

definition nextLevel :: "Env \<Rightarrow> App \<Rightarrow> App" where
  "nextLevel env st =
     st\<lparr>levelIdx := levelIdx st + 1,
        currentNumerator := 0,
        gems := [],
        obstacles := [],
        shockwaves := [],
        collectedHistory := [],
        shipX := innerWidth env / 2,
        shipY := innerHeight env - 80,
        lastTime := now env,
        bgmTimer := 0,
        gameState := Playing\<rparr>"

section \<open>Charge-Up (lines 750-792)\<close>

definition makeChargeQuestion :: "(nat \<Rightarrow> real) \<Rightarrow> nat \<Rightarrow> error + ChargeQuestion" where
  "makeChargeQuestion rnd lvlIdx =
     bindE (getLevel lvlIdx) (\<lambda>level.
       let d = denominator level;
           n1 = \<lfloor>rnd 0 * real_of_int d * 2\<rfloor> + 1;
           n2 = \<lfloor>rnd 1 * real_of_int d\<rfloor> + 1;
           op = (if rnd 2 > 5 / 10 then Plus else Minus)
       in if op = Minus \<and> n1 < n2
          then Inr \<lparr>q_n1 = n2, q_n2 = n1, q_op = op, q_d = d\<rparr>
          else Inr \<lparr>q_n1 = n1, q_n2 = n2, q_op = op, q_d = d\<rparr>)"

definition startChargeUp :: "Env \<Rightarrow> App \<Rightarrow> error + App" where
  "startChargeUp env st =
     bindE (makeChargeQuestion (random env) (levelIdx st)) (\<lambda>q.
       Inr (st\<lparr>chargeQuestion := q, chargeProgress := 0, mathInput := [],
               mathError := False, gameState := ChargeUp\<rparr>))"

definition chargeExpected :: "ChargeQuestion \<Rightarrow> int" where
  "chargeExpected q = (if q_op q = Plus then q_n1 q + q_n2 q else q_n1 q - q_n2 q)"

definition handleChargeSubmit :: "Env \<Rightarrow> App \<Rightarrow> error + App" where
  "handleChargeSubmit env st =
     (let expected = chargeExpected (chargeQuestion st)
      in if answerIs (mathInput st) (Some expected) then
           (let newProgress = chargeProgress st + 1
            in if newProgress \<ge> 3 then
                 Inr (nextLevel env (st\<lparr>powerUps := powerUps st + 1\<rparr>))
               else
                 bindE (makeChargeQuestion (random env) (levelIdx st)) (\<lambda>q.
                   Inr (st\<lparr>chargeProgress := newProgress, mathInput := [],
                           mathError := False, chargeQuestion := q\<rparr>)))
         else Inr (st\<lparr>mathError := True\<rparr>))"

section \<open>The component as a state machine\<close>

text \<open>
  The state after mounting (lines 71-118): the hooks' initial values, the initial
  \<open>stateRef.current\<close>, and the hundred stars of the first effect, each from four
  \<open>Math.random()\<close> calls.
\<close>

definition initStars :: "Env \<Rightarrow> Star list" where
  "initStars env =
     map (\<lambda>i. \<lparr>star_x = random env (4 * i) * innerWidth env,
               star_y = random env (4 * i + 1) * innerHeight env,
               star_speed = random env (4 * i + 2) * 2 + 1,
               star_size = random env (4 * i + 3) * 2 + 1\<rparr>) [0..<100]"

definition initApp :: "Env \<Rightarrow> App" where
  "initApp env =
     \<lparr>shipX = innerWidth env / 2,
      shipY = innerHeight env - 80,
      currentNumerator = 0,
      gems = [],
      obstacles = [],
      stars = initStars env,
      shockwaves = [],
      collectedHistory = [],
      keys = Map.empty,
      lastTime = 0,
      gemSpawnTimer = 0,
      obstacleSpawnTimer = 0,
      flashTimer = 0,
      bgmTimer = 0,
      bgmStep = 0,
      powerUps = 0,
      gameState = Start,
      levelIdx = 0,
      mathStep = 0,
      mathInput = [],
      mathError = False,
      chargeProgress = 0,
      chargeQuestion = \<lparr>q_n1 = 1, q_n2 = 1, q_op = Plus, q_d = 3\<rparr>,
      gameStateRef = Start,
      levelIdxRef = 0\<rparr>"

text \<open>
  The two effects of lines 84 and 87 copy \<open>gameState\<close> and \<open>levelIdx\<close> into their
  refs after every render; the model runs them at the end of every handler.
\<close>

definition commit :: "App \<Rightarrow> App" where
  "commit st = st\<lparr>gameStateRef := gameState st, levelIdxRef := levelIdx st\<rparr>"

text \<open>
  What can happen to the component: an animation frame with its timestamp, a key going
  down or up, a click on \<open>Start Engine\<close> / \<open>Play Again\<close> (both \<open>startGame\<close>), on
  \<open>Continue to Next Level\<close>, on \<open>Charge Up\<close>, a change of the answer field, and a
  submission (\<open>Confirm\<close> or Enter) in either sub-game. A button or field exists only
  in the state whose overlay renders it (lines 860-931); elsewhere the event cannot
  happen and the step leaves the state as it is.
\<close>

datatype Event =
    Frame real
  | KeyDown string
  | KeyUp string
  | ClickStartGame
  | ClickNextLevel
  | ClickChargeUp
  | ChangeInput string
  | SubmitMath
  | SubmitCharge

definition changeInput :: "string \<Rightarrow> App \<Rightarrow> App" where
  "changeInput v st = st\<lparr>mathInput := v, mathError := False\<rparr>"

fun handler :: "Env \<Rightarrow> Event \<Rightarrow> App \<Rightarrow> error + App" where
  "handler env (Frame time) st = loop env time st"
| "handler env (KeyDown key) st = Inr (handleKeyDown env key st)"
| "handler env (KeyUp key) st = Inr (handleKeyUp key st)"
| "handler env ClickStartGame st =
     (if gameState st = Start \<or> gameState st = GameComplete
      then Inr (startGame env st) else Inr st)"
| "handler env ClickNextLevel st =
     (if gameState st = LevelComplete then Inr (nextLevel env st) else Inr st)"
| "handler env ClickChargeUp st =
     (if gameState st = LevelComplete then startChargeUp env st else Inr st)"
| "handler env (ChangeInput v) st =
     (if gameState st = MathChallenge \<or> gameState st = ChargeUp
      then Inr (changeInput v st) else Inr st)"
| "handler env SubmitMath st =
     (if gameState st = MathChallenge then Inr (handleMathSubmit st) else Inr st)"
| "handler env SubmitCharge st =
     (if gameState st = ChargeUp then handleChargeSubmit env st else Inr st)"

definition step :: "Env \<Rightarrow> Event \<Rightarrow> App \<Rightarrow> error + App" where
  "step env ev st = bindE (handler env ev st) (\<lambda>st'. Inr (commit st'))"

inductive reachable :: "App \<Rightarrow> bool" where
  reachable_init: "reachable (initApp env)"
| reachable_step: "reachable st \<Longrightarrow> step env ev st = Inr st' \<Longrightarrow> reachable st'"

section \<open>Specification vocabulary\<close>

text \<open>
  The run-progress invariant of the data model: the numerator is the sum of the history.
\<close>

definition numInv :: "App \<Rightarrow> bool" where
  "numInv st = (currentNumerator st = sum_list (collectedHistory st))"

text \<open>
  What one call of \<open>update\<close> can do to the fields outside the play-field: \<open>s\<close> is a
  state during or after the tick that started in \<open>st\<close>.
\<close>

definition tickRel :: "App \<Rightarrow> App \<Rightarrow> bool" where
  "tickRel st s =
     (powerUps s = powerUps st \<and> levelIdx s = levelIdx st \<and> levelIdxRef s = levelIdxRef st \<and>
      gameStateRef s = gameStateRef st \<and> chargeProgress s = chargeProgress st \<and>
      chargeQuestion s = chargeQuestion st \<and> keys s = keys st \<and> lastTime s = lastTime st \<and>
      (numInv st \<longrightarrow> numInv s) \<and>
      (gameState s = gameState st \<or> gameState s = MathChallenge \<or>
       gameState s = (if isLastLevel st then GameComplete else LevelComplete)))"

text \<open>A browser and states to evaluate the model on.\<close>

definition demoEnv :: Env where
  "demoEnv = \<lparr>innerWidth = 800, innerHeight = 600, now = 1000, canvas = Some (800, 600),
     random = (\<lambda>k. 1 / 2)\<rparr>"

definition demoApp :: App where
  "demoApp = (initApp demoEnv)\<lparr>stars := []\<rparr>"

definition demoGem :: "int \<Rightarrow> Gem" where
  "demoGem n = \<lparr>gem_id = 0, gem_x = 400, gem_y = 520, gem_numerator = n, gem_speed = 2, gem_radius = 32\<rparr>"

definition mathDemo :: App where
  "mathDemo = demoApp\<lparr>currentNumerator := 4, collectedHistory := [3, - 1, 2],
     gameState := MathChallenge, levelIdx := 1, mathStep := 1, mathInput := ''2'',
     gameStateRef := MathChallenge, levelIdxRef := 1\<rparr>"

definition chargeDemo :: App where
  "chargeDemo = demoApp\<lparr>gameState := ChargeUp, levelIdx := 1, mathInput := ''2'',
     chargeQuestion := \<lparr>q_n1 = 1, q_n2 = 1, q_op = Plus, q_d = 4\<rparr>,
     gameStateRef := ChargeUp, levelIdxRef := 1\<rparr>"

definition playDemo :: App where
  "playDemo = demoApp\<lparr>gameState := Playing, levelIdx := 1, gameStateRef := Playing,
     levelIdxRef := 1\<rparr>"

definition c3Run :: App where
  "c3Run = gemCollect (LEVELS ! 1) (demoGem 2)
             (gemCollect (LEVELS ! 1) (demoGem (- 1))
               (gemCollect (LEVELS ! 1) (demoGem 3) playDemo))"

text \<open>
  A text is a correct answer to the current Charge-Up question (lines 773-775), and
  typing a text into the answer field and submitting it.
\<close>

definition chargeCorrect :: "string \<Rightarrow> App \<Rightarrow> bool" where
  "chargeCorrect t st = answerIs t (Some (chargeExpected (chargeQuestion st)))"

definition answerCharge :: "Env \<Rightarrow> string \<Rightarrow> App \<Rightarrow> error + App" where
  "answerCharge env t st = bindE (step env (ChangeInput t) st) (step env SubmitCharge)"

text \<open>
  The invariant of the component between two events: the refs mirror the hooks, the level
  index is inside the catalog, a completed level that offers \<open>Continue\<close> or
  \<open>Charge Up\<close> is not the last one, the power-up count is not negative and is 0
  before the first run, and the numerator is the sum of the history.
\<close>

definition appInv :: "App \<Rightarrow> bool" where
  "appInv st =
     (gameStateRef st = gameState st \<and> levelIdxRef st = levelIdx st \<and>
      levelIdx st < length LEVELS \<and>
      (gameState st = LevelComplete \<or> gameState st = ChargeUp \<longrightarrow>
         levelIdx st + 1 < length LEVELS) \<and>
      0 \<le> powerUps st \<and> (gameState st = Start \<longrightarrow> powerUps st = 0) \<and> numInv st)"

definition wonDemo :: App where
  "wonDemo = demoApp\<lparr>powerUps := 2, gameState := GameComplete, levelIdx := 10,
     gameStateRef := GameComplete, levelIdxRef := 10\<rparr>"

section \<open>Properties\<close>

subsection \<open>Auxiliary facts\<close>

lemma foldl_add_sum_list: "foldl (\<lambda>a b. a + b) (z::int) xs = z + sum_list xs"
  by (induction xs arbitrary: z) simp_all

lemma mathExpected_in_range:
  "s < length h \<Longrightarrow> mathExpected h s = Some (sum_list (take s h) + h ! s)"
  by (simp add: mathExpected_def foldl_add_sum_list)

lemma LEVELS_length: "length LEVELS = 11"
  by (simp add: LEVELS_def)

lemma LEVELS_target_pos: "level \<in> set LEVELS \<Longrightarrow> 0 < targetNumerator level"
  by (auto simp: LEVELS_def)

lemma bindE_Inr: "bindE r f = Inr y \<longleftrightarrow> (\<exists>a. r = Inr a \<and> f a = Inr y)"
  by (cases r) (simp_all add: bindE_def)

lemma loopDown_preserves:
  assumes "\<And>i s s'. P s \<Longrightarrow> body i s = Inr s' \<Longrightarrow> P s'"
  shows "P st \<Longrightarrow> loopDown body n st = Inr st' \<Longrightarrow> P st'"
proof (induction n arbitrary: st)
  case 0
  then show ?case by simp
next
  case (Suc n)
  from Suc.prems(2) obtain s1 where b: "body n st = Inr s1" and l: "loopDown body n s1 = Inr st'"
    by (auto simp: bindE_Inr)
  from assms[OF Suc.prems(1) b] have "P s1" .
  then show ?case using l by (rule Suc.IH)
qed

subsection \<open>What a tick leaves alone\<close>

lemma tickRel_refl: "tickRel st st"
  by (simp add: tickRel_def)

lemma tickRel_if: "tickRel st a \<Longrightarrow> tickRel st b \<Longrightarrow> tickRel st (if c then a else b)"
  by simp

lemma tickRel_fields:
  assumes "tickRel st s"
  shows "tickRel st (s\<lparr>shipX := x1\<rparr>)" and "tickRel st (s\<lparr>shipY := x2\<rparr>)"
    and "tickRel st (s\<lparr>gems := x3\<rparr>)" and "tickRel st (s\<lparr>obstacles := x4\<rparr>)"
    and "tickRel st (s\<lparr>stars := x5\<rparr>)" and "tickRel st (s\<lparr>shockwaves := x6\<rparr>)"
    and "tickRel st (s\<lparr>gemSpawnTimer := x7\<rparr>)" and "tickRel st (s\<lparr>obstacleSpawnTimer := x8\<rparr>)"
    and "tickRel st (s\<lparr>flashTimer := x9\<rparr>)" and "tickRel st (s\<lparr>bgmTimer := x10\<rparr>)"
    and "tickRel st (s\<lparr>bgmStep := x11\<rparr>)"
  using assms by (simp_all add: tickRel_def numInv_def)

lemma tickRel_bgmBlock:
  assumes a: "tickRel st s"
  shows "tickRel st (bgmBlock level dt s)"
  unfolding bgmBlock_def Let_def by (intro tickRel_if tickRel_fields a)

lemma tickRel_moveShip:
  assumes a: "tickRel st s"
  shows "tickRel st (moveShip dt s)"
  unfolding moveShip_def Let_def by (intro tickRel_if tickRel_fields a)

lemma tickRel_clampShip:
  assumes a: "tickRel st s"
  shows "tickRel st (clampShip level cv s)"
  unfolding clampShip_def Let_def by (intro tickRel_if tickRel_fields a)

lemma tickRel_flashBlock:
  assumes a: "tickRel st s"
  shows "tickRel st (flashBlock dt s)"
  unfolding flashBlock_def by (intro tickRel_if tickRel_fields a)

lemma tickRel_swBody:
  assumes a: "tickRel st s" and b: "swBody dt i s = Inr s'"
  shows "tickRel st s'"
proof -
  from b obtain x where "s' = s\<lparr>shockwaves := x\<rparr>"
    by (auto simp: swBody_def Let_def split: if_splits)
  then show ?thesis by (simp add: tickRel_fields a)
qed

lemma tickRel_gemSpawnBlock:
  assumes a: "tickRel st (fst sk)"
  shows "tickRel st (fst (gemSpawnBlock rnd level cv dt sk))"
  unfolding gemSpawnBlock_def Let_def if_distrib[of fst] fst_conv
  by (intro tickRel_if tickRel_fields a)

lemma tickRel_obstacleSpawnBlock:
  assumes a: "tickRel st (fst sk)"
  shows "tickRel st (fst (obstacleSpawnBlock rnd level cv dt sk))"
  unfolding obstacleSpawnBlock_def Let_def if_distrib[of fst] fst_conv
  by (intro tickRel_if tickRel_fields a)

lemma tickRel_obstacleHit: "tickRel st s \<Longrightarrow> tickRel st (obstacleHit s)"
  by (simp add: tickRel_def obstacleHit_def numInv_def)

lemma tickRel_obsBody:
  assumes a: "tickRel st s" and b: "obsBody level cv dt i s = Inr s'"
  shows "tickRel st s'"
proof -
  from b obtain x y where "s' = s\<lparr>obstacles := x\<rparr> \<or> s' = (obstacleHit (s\<lparr>obstacles := y\<rparr>))\<lparr>obstacles := x\<rparr>"
    unfolding obsBody_def Let_def by (auto split: if_splits)
  then show ?thesis
    by (auto simp: tickRel_fields tickRel_obstacleHit a)
qed

lemma tickRel_gemAccumulate: "tickRel st s \<Longrightarrow> tickRel st (gemAccumulate gem s)"
  by (simp add: tickRel_def gemAccumulate_def numInv_def)

lemma tickRel_underflowClamp: "tickRel st s \<Longrightarrow> tickRel st (underflowClamp s)"
  by (simp add: tickRel_def underflowClamp_def numInv_def)

lemma tickRel_targetCheck: "tickRel st s \<Longrightarrow> tickRel st (targetCheck level s)"
  by (auto simp: tickRel_def targetCheck_def completeLevel_def isLastLevel_def numInv_def)

lemma tickRel_gemCollect: "tickRel st s \<Longrightarrow> tickRel st (gemCollect level gem s)"
  by (simp add: gemCollect_def gemOutcome_def tickRel_targetCheck tickRel_underflowClamp
      tickRel_gemAccumulate)

lemma tickRel_gemBody:
  assumes a: "tickRel st s" and b: "gemBody level cv dt i s = Inr s'"
  shows "tickRel st s'"
proof -
  from b obtain x y g where "s' = s\<lparr>gems := x\<rparr> \<or> s' = (gemCollect level g (s\<lparr>gems := y\<rparr>))\<lparr>gems := x\<rparr>"
    unfolding gemBody_def Let_def by (auto split: if_splits)
  then show ?thesis
    by (auto simp: tickRel_fields tickRel_gemCollect a)
qed

lemma tickRel_prelude: "tickRel st s \<Longrightarrow> tickRel st (fst (prelude env level cv dt s))"
  by (simp add: prelude_def Let_def split_beta tickRel_flashBlock tickRel_fields
      tickRel_clampShip tickRel_moveShip tickRel_bgmBlock)

lemma tickRel_updateWith:
  assumes "updateWith env level cv dt st = Inr st'"
  shows "tickRel st st'"
proof -
  let ?sk5 = "prelude env level cv dt st"
  from assms obtain st6 st9 where
    sw: "shockwaveLoop dt (fst ?sk5) = Inr st6" and
    ob: "obstacleLoop level cv dt
           (fst (obstacleSpawnBlock (random env) level cv dt
              (gemSpawnBlock (random env) level cv dt (st6, snd ?sk5)))) = Inr st9" and
    ge: "gemLoop level cv dt st9 = Inr st'"
    by (auto simp: updateWith_def Let_def bindE_Inr)
  have "tickRel st (fst ?sk5)"
    by (rule tickRel_prelude) (rule tickRel_refl)
  then have "tickRel st st6"
    using sw unfolding shockwaveLoop_def
    by (rule loopDown_preserves[where P = "tickRel st", rotated]) (rule tickRel_swBody)
  then have "tickRel st (fst (obstacleSpawnBlock (random env) level cv dt
              (gemSpawnBlock (random env) level cv dt (st6, snd ?sk5))))"
    by (intro tickRel_obstacleSpawnBlock tickRel_gemSpawnBlock) simp
  then have "tickRel st st9"
    using ob unfolding obstacleLoop_def
    by (rule loopDown_preserves[where P = "tickRel st", rotated]) (rule tickRel_obsBody)
  then show ?thesis
    using ge unfolding gemLoop_def
    by (rule loopDown_preserves[where P = "tickRel st", rotated]) (rule tickRel_gemBody)
qed

lemma tickRel_update: "update env dt st = Inr st' \<Longrightarrow> tickRel st st'"
  by (auto simp: update_def bindE_Inr tickRel_refl tickRel_updateWith split: option.splits)

subsection \<open>The gem outcome and the two sub-games\<close>

lemmas parseInt_defs = parseInt_def isWhiteSpace_def isRadixDigit_def digitValue_def
  digitsValue_def

lemma underflowClamp_over:
  "0 \<le> t \<Longrightarrow> t < currentNumerator st \<Longrightarrow> underflowClamp st = st"
  by (simp add: underflowClamp_def)

lemma answerIs_iff: "answerIs t e = (parseInt t \<noteq> None \<and> parseInt t = e)"
  by (cases "parseInt t"; cases e) (simp_all add: answerIs_def)

text \<open>
  Claim C2. In the math challenge over a history \<open>h = [g0, ..., gk]\<close>, at every step
  \<open>s\<close> from 1 to \<open>k\<close> the expected answer is \<open>sum (g0 .. g(s-1)) + gs\<close>. A correct
  submission at a step \<open>s < k\<close> advances the step to \<open>s + 1\<close> (and clears the answer
  field and the error flag); a correct submission at step \<open>k\<close>, where the next step
  would be \<open>k + 1\<close>, completes the challenge: the state becomes \<open>game_complete\<close> on
  the last catalog level and \<open>level_complete\<close> otherwise.
\<close>

theorem C2_math_challenge_protocol:
  assumes "collectedHistory st = h" and "mathStep st = s" and "1 \<le> s" and "s < length h"
  shows "mathExpected h s = Some (sum_list (take s h) + h ! s) \<and>
         (answerIs (mathInput st) (mathExpected h s) \<longrightarrow>
            (if s + 1 = length h
             then handleMathSubmit st =
                    st\<lparr>gameState := (if isLastLevel st then GameComplete else LevelComplete)\<rparr>
             else handleMathSubmit st =
                    st\<lparr>mathStep := s + 1, mathInput := [], mathError := False\<rparr>))"
proof -
  have e: "mathExpected h s = Some (sum_list (take s h) + h ! s)"
    using assms(4) by (rule mathExpected_in_range)
  have "handleMathSubmit st =
          st\<lparr>gameState := (if isLastLevel st then GameComplete else LevelComplete)\<rparr>"
    if "answerIs (mathInput st) (mathExpected h s)" and "s + 1 = length h"
    using that assms(1,2) by (simp add: handleMathSubmit_def completeLevel_def)
  moreover have "handleMathSubmit st = st\<lparr>mathStep := s + 1, mathInput := [], mathError := False\<rparr>"
    if "answerIs (mathInput st) (mathExpected h s)" and "s + 1 \<noteq> length h"
    using that assms by (simp add: handleMathSubmit_def)
  ultimately show ?thesis using e by simp
qed

theorem C2_math_challenge_protocol_witness:
  "mathExpected [3, - 1, 2] 1 = Some 2 \<and>
   handleMathSubmit mathDemo = mathDemo\<lparr>mathStep := 2, mathInput := [], mathError := False\<rparr> \<and>
   handleMathSubmit (mathDemo\<lparr>mathStep := 2, mathInput := ''4''\<rparr>) =
     mathDemo\<lparr>mathStep := 2, mathInput := ''4'', gameState := LevelComplete\<rparr>"
  using C2_math_challenge_protocol[of mathDemo "[3, - 1, 2]" 1]
    C2_math_challenge_protocol[of "mathDemo\<lparr>mathStep := 2, mathInput := ''4''\<rparr>" "[3, - 1, 2]" 2]
  by (simp add: mathDemo_def answerIs_def parseInt_defs isLastLevel_def LEVELS_length)

text \<open>
  Claim C4. When a gem collection leaves \<open>currentNumerator\<close> exactly equal to the
  level's target with a history of length at most 1 (the state \<open>st1\<close>, after the
  numerator is added and the underflow clamp has run), the collection does nothing but
  set the state to \<open>game_complete\<close> on the last catalog level and to
  \<open>level_complete\<close> otherwise: \<open>math_challenge\<close> is skipped.
\<close>

theorem C4_exact_match_auto_advance:
  assumes "st1 = underflowClamp (gemAccumulate gem st)"
      and "currentNumerator st1 = targetNumerator level"
      and "length (collectedHistory st1) \<le> 1"
  shows "gemCollect level gem st =
           st1\<lparr>gameState := (if isLastLevel st then GameComplete else LevelComplete)\<rparr>"
proof -
  have "isLastLevel st1 = isLastLevel st"
    by (simp add: assms(1) isLastLevel_def underflowClamp_def gemAccumulate_def)
  then show ?thesis
    using assms(2,3)
    by (simp add: gemCollect_def gemOutcome_def targetCheck_def completeLevel_def
        flip: assms(1))
qed

theorem C4_exact_match_auto_advance_witness:
  "gameState (gemCollect (LEVELS ! 0) (demoGem 3) demoApp) = LevelComplete \<and>
   gameState (gemCollect (LEVELS ! 10) (demoGem 12) (demoApp\<lparr>levelIdxRef := 10\<rparr>)) = GameComplete"
  using C4_exact_match_auto_advance[of "underflowClamp (gemAccumulate (demoGem 3) demoApp)" "demoGem 3" demoApp "LEVELS ! 0"]
    C4_exact_match_auto_advance[of "underflowClamp (gemAccumulate (demoGem 12) (demoApp\<lparr>levelIdxRef := 10\<rparr>))"
          "demoGem 12" "demoApp\<lparr>levelIdxRef := 10\<rparr>" "LEVELS ! 10"]
  by (simp add: demoApp_def initApp_def demoGem_def underflowClamp_def gemAccumulate_def
      isLastLevel_def LEVELS_def)

text \<open>
  Claim C5. On every catalog level, a gem collection whose sum exceeds the target, or
  whose sum is below 0, leaves \<open>currentNumerator = 0\<close> and an empty history in that same
  step, and does not change the game state (it stays \<open>playing\<close>).
\<close>

theorem C5_overshoot_underflow_reset:
  assumes "level \<in> set LEVELS"
      and "currentNumerator st + gem_numerator gem > targetNumerator level \<or>
           currentNumerator st + gem_numerator gem < 0"
  shows "currentNumerator (gemCollect level gem st) = 0 \<and>
         collectedHistory (gemCollect level gem st) = [] \<and>
         gameState (gemCollect level gem st) = gameState st"
proof -
  have pos: "0 < targetNumerator level"
    using assms(1) by (rule LEVELS_target_pos)
  from assms(2) show ?thesis
  proof
    assume "currentNumerator st + gem_numerator gem > targetNumerator level"
    with pos show ?thesis
      by (simp add: gemCollect_def gemOutcome_def targetCheck_def underflowClamp_def
          gemAccumulate_def)
  next
    assume "currentNumerator st + gem_numerator gem < 0"
    with pos show ?thesis
      by (simp add: gemCollect_def gemOutcome_def targetCheck_def underflowClamp_def
          gemAccumulate_def)
  qed
qed

theorem C5_overshoot_underflow_reset_witness:
  "currentNumerator (gemCollect (LEVELS ! 0) (demoGem 2)
      (demoApp\<lparr>currentNumerator := 2, collectedHistory := [2], gameState := Playing\<rparr>)) = 0 \<and>
   collectedHistory (gemCollect (LEVELS ! 0) (demoGem 2)
      (demoApp\<lparr>currentNumerator := 2, collectedHistory := [2], gameState := Playing\<rparr>)) = [] \<and>
   gameState (gemCollect (LEVELS ! 0) (demoGem 2)
      (demoApp\<lparr>currentNumerator := 2, collectedHistory := [2], gameState := Playing\<rparr>)) = Playing \<and>
   currentNumerator (gemCollect (LEVELS ! 0) (demoGem (- 2))
      (demoApp\<lparr>currentNumerator := 1, collectedHistory := [1], gameState := Playing\<rparr>)) = 0 \<and>
   collectedHistory (gemCollect (LEVELS ! 0) (demoGem (- 2))
      (demoApp\<lparr>currentNumerator := 1, collectedHistory := [1], gameState := Playing\<rparr>)) = [] \<and>
   gameState (gemCollect (LEVELS ! 0) (demoGem (- 2))
      (demoApp\<lparr>currentNumerator := 1, collectedHistory := [1], gameState := Playing\<rparr>)) = Playing"
  using C5_overshoot_underflow_reset[of "LEVELS ! 0" "demoApp\<lparr>currentNumerator := 2, collectedHistory := [2], gameState := Playing\<rparr>" "demoGem 2"]
    C5_overshoot_underflow_reset[of "LEVELS ! 0" "demoApp\<lparr>currentNumerator := 1, collectedHistory := [1], gameState := Playing\<rparr>" "demoGem (- 2)"]
  by (simp add: demoGem_def LEVELS_def)

text \<open>
  Claim C7. In either sub-game the answer text is read by \<open>parseInt\<close>. A submission
  whose text does not parse to the expected integer (no number at all, or another value)
  sets the error flag and changes nothing else: the math step, the history, the charge
  progress, the current question and the game state stay as they are, and no exception
  is raised.
\<close>

theorem C7_wrong_answer_only_flags:
  "(parseInt (mathInput st) = None \<or>
      parseInt (mathInput st) \<noteq> mathExpected (collectedHistory st) (mathStep st)
    \<longrightarrow> handleMathSubmit st = st\<lparr>mathError := True\<rparr>) \<and>
   (parseInt (mathInput st) \<noteq> Some (chargeExpected (chargeQuestion st))
    \<longrightarrow> handleChargeSubmit env st = Inr (st\<lparr>mathError := True\<rparr>))"
proof (intro conjI impI)
  assume "parseInt (mathInput st) = None \<or>
      parseInt (mathInput st) \<noteq> mathExpected (collectedHistory st) (mathStep st)"
  then have "\<not> answerIs (mathInput st) (mathExpected (collectedHistory st) (mathStep st))"
    by (auto simp: answerIs_iff)
  then show "handleMathSubmit st = st\<lparr>mathError := True\<rparr>"
    by (simp add: handleMathSubmit_def)
next
  assume "parseInt (mathInput st) \<noteq> Some (chargeExpected (chargeQuestion st))"
  then have "\<not> answerIs (mathInput st) (Some (chargeExpected (chargeQuestion st)))"
    by (simp add: answerIs_iff)
  then show "handleChargeSubmit env st = Inr (st\<lparr>mathError := True\<rparr>)"
    by (simp add: handleChargeSubmit_def)
qed

theorem C7_wrong_answer_only_flags_witness:
  "handleMathSubmit (mathDemo\<lparr>mathInput := ''abc''\<rparr>) =
     mathDemo\<lparr>mathInput := ''abc'', mathError := True\<rparr> \<and>
   handleMathSubmit (mathDemo\<lparr>mathInput := ''3''\<rparr>) =
     mathDemo\<lparr>mathInput := ''3'', mathError := True\<rparr> \<and>
   handleChargeSubmit demoEnv (chargeDemo\<lparr>mathInput := []\<rparr>) =
     Inr (chargeDemo\<lparr>mathInput := [], mathError := True\<rparr>) \<and>
   handleChargeSubmit demoEnv (chargeDemo\<lparr>mathInput := ''7''\<rparr>) =
     Inr (chargeDemo\<lparr>mathInput := ''7'', mathError := True\<rparr>)"
  using C7_wrong_answer_only_flags[of "mathDemo\<lparr>mathInput := ''abc''\<rparr>" demoEnv]
    C7_wrong_answer_only_flags[of "mathDemo\<lparr>mathInput := ''3''\<rparr>" demoEnv]
    C7_wrong_answer_only_flags[of "chargeDemo\<lparr>mathInput := []\<rparr>" demoEnv]
    C7_wrong_answer_only_flags[of "chargeDemo\<lparr>mathInput := ''7''\<rparr>" demoEnv]
  by (simp add: mathDemo_def chargeDemo_def parseInt_defs mathExpected_def chargeExpected_def)

subsection \<open>The worked example of the math challenge\<close>

lemmas gemCollect_defs = gemCollect_def gemOutcome_def targetCheck_def underflowClamp_def
  gemAccumulate_def

text \<open>
  Claim C3, as amended. On a level with target 4, collecting gems 3, -1 and 2 from an
  empty run leaves the history \<open>[3, -1, 2]\<close> and the numerator 4; the first two
  collections do not change the game state and the third enters \<open>math_challenge\<close>
  with \<open>mathStep = 1\<close>. The challenge has two steps: step 1 expects 2 and step 2
  expects 4 (the first gem's 3 is never asked), and the correct answer at step 2
  completes the level.
\<close>

theorem C3_history_3_m1_2_challenge:
  assumes "currentNumerator st = 0" and "collectedHistory st = []"
      and "targetNumerator level = 4"
      and "gem_numerator g1 = 3" and "gem_numerator g2 = - 1" and "gem_numerator g3 = 2"
  shows "gameState (gemCollect level g2 (gemCollect level g1 st)) = gameState st \<and>
    (let st3 = gemCollect level g3 (gemCollect level g2 (gemCollect level g1 st)) in
       collectedHistory st3 = [3, - 1, 2] \<and> currentNumerator st3 = 4 \<and>
       gameState st3 = MathChallenge \<and> mathStep st3 = 1 \<and>
       mathExpected (collectedHistory st3) 1 = Some 2 \<and>
       mathExpected (collectedHistory st3) 2 = Some 4 \<and>
       (\<forall>t1 t2. parseInt t1 = Some 2 \<longrightarrow> parseInt t2 = Some 4 \<longrightarrow>
          mathStep (handleMathSubmit (changeInput t1 st3)) = 2 \<and>
          gameState (handleMathSubmit (changeInput t1 st3)) = MathChallenge \<and>
          gameState (handleMathSubmit (changeInput t2 (handleMathSubmit (changeInput t1 st3)))) =
            (if isLastLevel st then GameComplete else LevelComplete)))"
proof -
  define s1 where "s1 = gemCollect level g1 st"
  define s2 where "s2 = gemCollect level g2 s1"
  define s3 where "s3 = gemCollect level g3 s2"
  have s1: "s1 = st\<lparr>currentNumerator := 3, collectedHistory := [3]\<rparr>"
    using assms by (simp add: s1_def gemCollect_defs)
  have s2: "s2 = st\<lparr>currentNumerator := 2, collectedHistory := [3, - 1]\<rparr>"
    using assms by (simp add: s2_def s1 gemCollect_defs)
  have s3: "s3 = st\<lparr>currentNumerator := 4, collectedHistory := [3, - 1, 2], mathStep := 1,
      mathInput := [], mathError := False, gameState := MathChallenge\<rparr>"
    using assms by (simp add: s3_def s2 gemCollect_defs)
  have e1: "mathExpected [3, - 1, 2] 1 = Some 2" and e2: "mathExpected [3, - 1, 2] 2 = Some 4"
    by (simp_all add: mathExpected_def)
  have run: "mathStep (handleMathSubmit (changeInput t1 s3)) = 2 \<and>
      gameState (handleMathSubmit (changeInput t1 s3)) = MathChallenge \<and>
      gameState (handleMathSubmit (changeInput t2 (handleMathSubmit (changeInput t1 s3)))) =
        (if isLastLevel st then GameComplete else LevelComplete)"
    if "parseInt t1 = Some 2" and "parseInt t2 = Some 4" for t1 t2
  proof -
    have a: "handleMathSubmit (changeInput t1 s3) =
        s3\<lparr>mathStep := 2, mathInput := [], mathError := False\<rparr>"
      using that(1) by (simp add: handleMathSubmit_def changeInput_def s3 mathExpected_def answerIs_def Let_def)
    have b: "handleMathSubmit (changeInput t2 (s3\<lparr>mathStep := 2, mathInput := [], mathError := False\<rparr>)) =
        completeLevel (s3\<lparr>mathStep := 2, mathInput := t2, mathError := False\<rparr>)"
      using that(2) by (simp add: handleMathSubmit_def changeInput_def s3 mathExpected_def answerIs_def Let_def)
    show ?thesis
      unfolding a b by (simp add: s3 completeLevel_def isLastLevel_def)
  qed
  have "gameState s2 = gameState st"
    by (simp add: s2)
  moreover have "collectedHistory s3 = [3, - 1, 2]" "currentNumerator s3 = 4"
    "gameState s3 = MathChallenge" "mathStep s3 = 1"
    by (simp_all add: s3)
  ultimately show ?thesis
    using e1 e2 run unfolding Let_def s3_def[symmetric, unfolded s2_def s1_def] s2_def s1_def
    by simp
qed

theorem C3_history_3_m1_2_challenge_witness:
  "collectedHistory c3Run = [3, - 1, 2] \<and> currentNumerator c3Run = 4 \<and>
   gameState c3Run = MathChallenge \<and> mathStep c3Run = 1 \<and>
   gameState (handleMathSubmit (changeInput ''4'' (handleMathSubmit (changeInput ''2'' c3Run)))) =
     LevelComplete"
  using C3_history_3_m1_2_challenge[of playDemo "LEVELS ! 1" "demoGem 3" "demoGem (- 1)" "demoGem 2"]
  by (simp add: c3Run_def playDemo_def demoApp_def initApp_def demoGem_def LEVELS_def Let_def
      parseInt_defs isLastLevel_def)

theorem C3_history_3_m1_2_challenge_counterexample:
  "collectedHistory c3Run = [3, - 1, 2] \<and> mathStep c3Run = 1 \<and>
   mathExpected (collectedHistory c3Run) 1 = Some 2 \<and>
   mathExpected (collectedHistory c3Run) 1 \<noteq> Some 3 \<and>
   mathExpected (collectedHistory c3Run) 3 = None \<and>
   handleMathSubmit (changeInput ''3'' c3Run) = (changeInput ''3'' c3Run)\<lparr>mathError := True\<rparr>"
proof -
  have r: "c3Run = playDemo\<lparr>currentNumerator := 4, collectedHistory := [3, - 1, 2],
      mathStep := 1, mathInput := [], mathError := False, gameState := MathChallenge\<rparr>"
    by (simp add: c3Run_def playDemo_def demoApp_def initApp_def demoGem_def LEVELS_def
        gemCollect_defs)
  show ?thesis
    by (simp add: r mathExpected_def handleMathSubmit_def changeInput_def answerIs_def
        parseInt_defs Let_def)
qed

subsection \<open>The Charge-Up streak\<close>

lemma makeChargeQuestion_total:
  "i < length LEVELS \<Longrightarrow> \<exists>q. makeChargeQuestion rnd i = Inr q"
  by (simp add: makeChargeQuestion_def getLevel_def bindE_def Let_def)

lemma answerCharge_unfold:
  assumes "gameState st = ChargeUp"
  shows "answerCharge env t st =
           bindE (handleChargeSubmit env (commit (changeInput t st))) (\<lambda>x. Inr (commit x))"
  using assms by (simp add: answerCharge_def step_def bindE_def changeInput_def commit_def)

lemma answerCharge_progress:
  assumes "gameState st = ChargeUp" and "levelIdx st < length LEVELS"
      and "chargeCorrect t st" and "chargeProgress st + 1 < 3"
  shows "\<exists>st'. answerCharge env t st = Inr st' \<and> gameState st' = ChargeUp \<and>
           chargeProgress st' = chargeProgress st + 1 \<and> powerUps st' = powerUps st \<and>
           levelIdx st' = levelIdx st"
proof -
  define s where "s = commit (changeInput t st)"
  have f: "mathInput s = t" "chargeQuestion s = chargeQuestion st" "levelIdx s = levelIdx st"
    "chargeProgress s = chargeProgress st" "powerUps s = powerUps st" "gameState s = ChargeUp"
    using assms(1) by (simp_all add: s_def commit_def changeInput_def)
  from makeChargeQuestion_total[OF assms(2)] obtain q
    where q: "makeChargeQuestion (random env) (levelIdx st) = Inr q" by blast
  have "handleChargeSubmit env s =
      Inr (s\<lparr>chargeProgress := chargeProgress st + 1, mathInput := [],
             mathError := False, chargeQuestion := q\<rparr>)"
    using assms(3,4) q by (simp add: handleChargeSubmit_def chargeCorrect_def f bindE_def)
  then show ?thesis
    unfolding answerCharge_unfold[OF assms(1)] s_def[symmetric]
    by (simp add: bindE_def commit_def f)
qed

lemma answerCharge_complete:
  assumes "gameState st = ChargeUp" and "chargeCorrect t st" and "chargeProgress st + 1 \<ge> 3"
  shows "\<exists>st'. answerCharge env t st = Inr st' \<and> gameState st' = Playing \<and>
           powerUps st' = powerUps st + 1 \<and> levelIdx st' = levelIdx st + 1 \<and>
           gameStateRef st' = Playing \<and> levelIdxRef st' = levelIdx st + 1"
proof -
  define s where "s = commit (changeInput t st)"
  have f: "mathInput s = t" "chargeQuestion s = chargeQuestion st" "levelIdx s = levelIdx st"
    "chargeProgress s = chargeProgress st" "powerUps s = powerUps st" "gameState s = ChargeUp"
    using assms(1) by (simp_all add: s_def commit_def changeInput_def)
  have "handleChargeSubmit env s = Inr (nextLevel env (s\<lparr>powerUps := powerUps st + 1\<rparr>))"
    using assms(2,3) by (simp add: handleChargeSubmit_def chargeCorrect_def f)
  then show ?thesis
    unfolding answerCharge_unfold[OF assms(1)] s_def[symmetric]
    by (simp add: bindE_def commit_def nextLevel_def f)
qed

text \<open>
  Claim C6. From a \<open>charge_up\<close> state with \<open>chargeProgress = 0\<close> (on a level of the
  catalog), three correct answers in a row, whatever questions are drawn in between,
  all succeed: the first two leave the game in \<open>charge_up\<close> with the power-up count
  as it was, and the third credits exactly one power-up and moves to \<open>playing\<close> at
  the next level index.
\<close>

theorem C6_three_correct_answers_credit_one:
  assumes "gameState st0 = ChargeUp" and "chargeProgress st0 = 0"
      and "levelIdx st0 < length LEVELS" and "chargeCorrect t1 st0"
  shows "\<exists>st1. answerCharge e1 t1 st0 = Inr st1 \<and> gameState st1 = ChargeUp \<and>
           powerUps st1 = powerUps st0 \<and>
           (\<forall>e2 t2. chargeCorrect t2 st1 \<longrightarrow>
              (\<exists>st2. answerCharge e2 t2 st1 = Inr st2 \<and> gameState st2 = ChargeUp \<and>
                 powerUps st2 = powerUps st0 \<and>
                 (\<forall>e3 t3. chargeCorrect t3 st2 \<longrightarrow>
                    (\<exists>st3. answerCharge e3 t3 st2 = Inr st3 \<and> gameState st3 = Playing \<and>
                       powerUps st3 = powerUps st0 + 1 \<and>
                       levelIdx st3 = levelIdx st0 + 1))))"
proof -
  from answerCharge_progress[OF assms(1,3,4), of e1] assms(2) obtain st1 where
    r1: "answerCharge e1 t1 st0 = Inr st1" and g1: "gameState st1 = ChargeUp" and
    c1: "chargeProgress st1 = 1" and p1: "powerUps st1 = powerUps st0" and
    l1: "levelIdx st1 = levelIdx st0"
    by auto
  have second: "\<exists>st2. answerCharge e2 t2 st1 = Inr st2 \<and> gameState st2 = ChargeUp \<and>
      powerUps st2 = powerUps st0 \<and>
      (\<forall>e3 t3. chargeCorrect t3 st2 \<longrightarrow>
         (\<exists>st3. answerCharge e3 t3 st2 = Inr st3 \<and> gameState st3 = Playing \<and>
            powerUps st3 = powerUps st0 + 1 \<and> levelIdx st3 = levelIdx st0 + 1))"
    if t2: "chargeCorrect t2 st1" for e2 t2
  proof -
    have "levelIdx st1 < length LEVELS" "chargeProgress st1 + 1 < 3"
      using l1 c1 assms(3) by simp_all
    from answerCharge_progress[OF g1 this(1) t2 this(2), of e2] obtain st2 where
      r2: "answerCharge e2 t2 st1 = Inr st2" and g2: "gameState st2 = ChargeUp" and
      c2: "chargeProgress st2 = 2" and p2: "powerUps st2 = powerUps st0" and
      l2: "levelIdx st2 = levelIdx st0"
      using c1 p1 l1 by auto
    have third: "\<exists>st3. answerCharge e3 t3 st2 = Inr st3 \<and> gameState st3 = Playing \<and>
        powerUps st3 = powerUps st0 + 1 \<and> levelIdx st3 = levelIdx st0 + 1"
      if t3: "chargeCorrect t3 st2" for e3 t3
    proof -
      have "chargeProgress st2 + 1 \<ge> 3" using c2 by simp
      from answerCharge_complete[OF g2 t3 this, of e3] show ?thesis
        using p2 l2 by auto
    qed
    show ?thesis
      using r2 g2 p2 third by blast
  qed
  show ?thesis
    using r1 g1 p1 second by blast
qed

theorem C6_three_correct_answers_credit_one_witness:
  "\<exists>st3. bindE (bindE (answerCharge demoEnv ''2'' chargeDemo) (answerCharge demoEnv ''2''))
            (answerCharge demoEnv ''2'') = Inr st3 \<and>
     gameState st3 = Playing \<and> powerUps st3 = powerUps chargeDemo + 1 \<and>
     levelIdx st3 = levelIdx chargeDemo + 1"
proof -
  define q where "q = \<lparr>q_n1 = 5, q_n2 = 3, q_op = Minus, q_d = 4\<rparr>"
  define s1 where "s1 = chargeDemo\<lparr>chargeProgress := 1, mathInput := [], chargeQuestion := q\<rparr>"
  define s2 where "s2 = chargeDemo\<lparr>chargeProgress := 2, mathInput := [], chargeQuestion := q\<rparr>"
  have mk: "makeChargeQuestion (random demoEnv) (Suc 0) = Inr q"
    by (simp add: makeChargeQuestion_def getLevel_def bindE_def LEVELS_def demoEnv_def q_def)
  have p2: "parseInt ''2'' = Some 2"
    by (simp add: parseInt_defs)
  have a1: "answerCharge demoEnv ''2'' chargeDemo = Inr s1"
    by (simp add: answerCharge_def step_def bindE_def changeInput_def commit_def
        handleChargeSubmit_def chargeExpected_def answerIs_def p2 mk chargeDemo_def s1_def
        demoApp_def initApp_def)
  have a2: "answerCharge demoEnv ''2'' s1 = Inr s2"
    by (simp add: answerCharge_def step_def bindE_def changeInput_def commit_def
        handleChargeSubmit_def chargeExpected_def answerIs_def p2 mk chargeDemo_def s1_def
        s2_def demoApp_def initApp_def q_def)
  have c0: "chargeCorrect ''2'' chargeDemo"
    by (simp add: chargeCorrect_def chargeExpected_def answerIs_def p2 chargeDemo_def)
  have c1: "chargeCorrect ''2'' s1" and c2: "chargeCorrect ''2'' s2"
    by (simp_all add: chargeCorrect_def chargeExpected_def answerIs_def p2 s1_def s2_def q_def)
  have h: "gameState chargeDemo = ChargeUp" "chargeProgress chargeDemo = 0"
    "levelIdx chargeDemo < length LEVELS"
    by (simp_all add: chargeDemo_def demoApp_def initApp_def LEVELS_length)
  from C6_three_correct_answers_credit_one[OF h c0, of demoEnv] a1
  have "\<forall>e2 t2. chargeCorrect t2 s1 \<longrightarrow>
      (\<exists>st2. answerCharge e2 t2 s1 = Inr st2 \<and> gameState st2 = ChargeUp \<and>
         powerUps st2 = powerUps chargeDemo \<and>
         (\<forall>e3 t3. chargeCorrect t3 st2 \<longrightarrow>
            (\<exists>st3. answerCharge e3 t3 st2 = Inr st3 \<and> gameState st3 = Playing \<and>
               powerUps st3 = powerUps chargeDemo + 1 \<and>
               levelIdx st3 = levelIdx chargeDemo + 1)))"
    by simp
  then obtain st2 where "answerCharge demoEnv ''2'' s1 = Inr st2" and
    r: "\<forall>e3 t3. chargeCorrect t3 st2 \<longrightarrow>
      (\<exists>st3. answerCharge e3 t3 st2 = Inr st3 \<and> gameState st3 = Playing \<and>
         powerUps st3 = powerUps chargeDemo + 1 \<and> levelIdx st3 = levelIdx chargeDemo + 1)"
    using c1 by blast
  then have "st2 = s2"
    using a2 by simp
  with r have "\<forall>e3 t3. chargeCorrect t3 s2 \<longrightarrow>
      (\<exists>st3. answerCharge e3 t3 s2 = Inr st3 \<and> gameState st3 = Playing \<and>
         powerUps st3 = powerUps chargeDemo + 1 \<and> levelIdx st3 = levelIdx chargeDemo + 1)"
    by simp
  with c2 obtain st3 where "answerCharge demoEnv ''2'' s2 = Inr st3" "gameState st3 = Playing"
    "powerUps st3 = powerUps chargeDemo + 1" "levelIdx st3 = levelIdx chargeDemo + 1"
    by blast
  then show ?thesis
    by (simp add: a1 a2 bindE_def)
qed

subsection \<open>The invariant of the reachable states\<close>

lemma appInv_initApp: "appInv (initApp env)"
  by (simp add: appInv_def initApp_def numInv_def LEVELS_length)

lemma appInv_frame:
  assumes inv: "appInv st" and l: "loop env time st = Inr s'"
  shows "appInv (commit s')"
proof (cases "gameStateRef st = Playing")
  case False
  with l have "s' = st" by (simp add: loop_def)
  with inv show ?thesis by (simp add: appInv_def commit_def numInv_def)
next
  case True
  let ?st1 = "st\<lparr>lastTime := time\<rparr>"
  from True l have "update env (frameDelta time st) ?st1 = Inr s'"
    by (simp add: loop_def Let_def)
  then have "tickRel ?st1 s'" by (rule tickRel_update)
  moreover have "gameState st = Playing" using True inv by (simp add: appInv_def)
  ultimately show ?thesis
    using inv
    by (auto simp: appInv_def tickRel_def commit_def numInv_def isLastLevel_def LEVELS_length
        split: if_splits)
qed

lemma appInv_handleKeyDown: "appInv st \<Longrightarrow> appInv (commit (handleKeyDown env key st))"
  by (simp add: appInv_def handleKeyDown_def commit_def numInv_def Let_def)

lemma appInv_handleKeyUp: "appInv st \<Longrightarrow> appInv (commit (handleKeyUp key st))"
  by (simp add: appInv_def handleKeyUp_def commit_def numInv_def)

lemma appInv_startGame: "appInv (commit (startGame env st))"
  by (simp add: appInv_def startGame_def commit_def numInv_def LEVELS_length)

lemma appInv_nextLevel:
  "appInv st \<Longrightarrow> gameState st = LevelComplete \<or> gameState st = ChargeUp \<Longrightarrow> 0 \<le> p \<Longrightarrow>
     appInv (commit (nextLevel env (st\<lparr>powerUps := p\<rparr>)))"
  by (auto simp: appInv_def nextLevel_def commit_def numInv_def)

lemma appInv_startChargeUp:
  "appInv st \<Longrightarrow> gameState st = LevelComplete \<Longrightarrow> startChargeUp env st = Inr s' \<Longrightarrow>
     appInv (commit s')"
  by (auto simp: appInv_def startChargeUp_def commit_def numInv_def bindE_Inr)

lemma appInv_changeInput: "appInv st \<Longrightarrow> appInv (commit (changeInput v st))"
  by (simp add: appInv_def changeInput_def commit_def numInv_def)

lemma appInv_handleMathSubmit:
  "appInv st \<Longrightarrow> gameState st = MathChallenge \<Longrightarrow> appInv (commit (handleMathSubmit st))"
  by (auto simp: appInv_def handleMathSubmit_def completeLevel_def isLastLevel_def commit_def
      numInv_def Let_def LEVELS_length)

lemma appInv_handleChargeSubmit:
  assumes "appInv st" and "gameState st = ChargeUp" and "handleChargeSubmit env st = Inr s'"
  shows "appInv (commit s')"
proof (cases "answerIs (mathInput st) (Some (chargeExpected (chargeQuestion st)))")
  case False
  with assms(3) have "s' = st\<lparr>mathError := True\<rparr>"
    by (simp add: handleChargeSubmit_def)
  with assms(1) show ?thesis by (simp add: appInv_def commit_def numInv_def)
next
  case True
  show ?thesis
  proof (cases "chargeProgress st + 1 \<ge> 3")
    case True
    with \<open>answerIs _ _\<close> assms(3)
    have "s' = nextLevel env (st\<lparr>powerUps := powerUps st + 1\<rparr>)"
      by (simp add: handleChargeSubmit_def)
    moreover have "0 \<le> powerUps st + 1" using assms(1) by (simp add: appInv_def)
    ultimately show ?thesis using assms(1,2) by (simp add: appInv_nextLevel)
  next
    case False
    with \<open>answerIs _ _\<close> assms(3) obtain q where
      "s' = st\<lparr>chargeProgress := chargeProgress st + 1, mathInput := [], mathError := False,
               chargeQuestion := q\<rparr>"
      by (auto simp: handleChargeSubmit_def bindE_Inr)
    with assms(1) show ?thesis by (simp add: appInv_def commit_def numInv_def)
  qed
qed

lemma appInv_step:
  assumes "appInv st" and "step env ev st = Inr st'"
  shows "appInv st'"
proof -
  from assms(2) obtain s' where h: "handler env ev st = Inr s'" and st': "st' = commit s'"
    by (auto simp: step_def bindE_Inr)
  have idle: "appInv (commit st)"
    using assms(1) by (simp add: appInv_def commit_def numInv_def)
  show ?thesis
  proof (cases ev)
    case (Frame time)
    with h assms(1) show ?thesis unfolding st' by (simp add: appInv_frame)
  next
    case (KeyDown key)
    with h assms(1) show ?thesis unfolding st' by (auto simp: appInv_handleKeyDown)
  next
    case (KeyUp key)
    with h assms(1) show ?thesis unfolding st' by (auto simp: appInv_handleKeyUp)
  next
    case ClickStartGame
    with h idle show ?thesis unfolding st' by (auto simp: appInv_startGame split: if_splits)
  next
    case ClickNextLevel
    with h idle appInv_nextLevel[OF assms(1), of "powerUps st" env] assms(1)
    show ?thesis unfolding st' by (auto simp: appInv_def split: if_splits)
  next
    case ClickChargeUp
    with h idle assms(1) show ?thesis unfolding st'
      by (auto simp: appInv_startChargeUp split: if_splits)
  next
    case (ChangeInput v)
    with h idle assms(1) show ?thesis unfolding st'
      by (auto simp: appInv_changeInput split: if_splits)
  next
    case SubmitMath
    with h idle assms(1) show ?thesis unfolding st'
      by (auto simp: appInv_handleMathSubmit split: if_splits)
  next
    case SubmitCharge
    with h idle assms(1) show ?thesis unfolding st'
      by (auto simp: appInv_handleChargeSubmit split: if_splits)
  qed
qed

lemma reachable_appInv: "reachable st \<Longrightarrow> appInv st"
  by (induction rule: reachable.induct) (simp_all add: appInv_initApp appInv_step)


subsection \<open>No handler fails in a reachable state\<close>

lemma loopDown_succeeds:
  assumes "\<And>i s. J (Suc i) s \<Longrightarrow> \<exists>s'. body i s = Inr s' \<and> J i s'"
  shows "J n st \<Longrightarrow> \<exists>st'. loopDown body n st = Inr st'"
proof (induction n arbitrary: st)
  case 0
  then show ?case by simp
next
  case (Suc n)
  from assms[OF Suc.prems] obtain s' where b: "body n st = Inr s'" and j: "J n s'"
    by blast
  from Suc.IH[OF j] b show ?case by (simp add: bindE_def)
qed

lemma length_splice1: "i < length xs \<Longrightarrow> length (splice1 i xs) = length xs - 1"
  by (simp add: splice1_def)

lemma shockwaveLoop_total: "\<exists>st'. shockwaveLoop dt st = Inr st'"
  unfolding shockwaveLoop_def
proof (rule loopDown_succeeds[where J = "\<lambda>i s. i \<le> length (shockwaves s)"])
  fix i :: nat and s :: App
  assume "Suc i \<le> length (shockwaves s)"
  then show "\<exists>s'. swBody dt i s = Inr s' \<and> i \<le> length (shockwaves s')"
    by (auto simp: swBody_def Let_def length_splice1)
qed simp

lemma obstacleLoop_total: "\<exists>st'. obstacleLoop level cv dt st = Inr st'"
  unfolding obstacleLoop_def
proof (rule loopDown_succeeds[where J = "\<lambda>i s. i \<le> length (obstacles s)"])
  fix i :: nat and s :: App
  assume "Suc i \<le> length (obstacles s)"
  then show "\<exists>s'. obsBody level cv dt i s = Inr s' \<and> i \<le> length (obstacles s')"
    by (auto simp: obsBody_def Let_def length_splice1 obstacleHit_def)
qed simp

lemma gems_gemCollect: "gems (gemCollect level gem s) = gems s"
  by (simp add: gemCollect_defs completeLevel_def)

lemma gemLoop_total: "\<exists>st'. gemLoop level cv dt st = Inr st'"
  unfolding gemLoop_def
proof (rule loopDown_succeeds[where J = "\<lambda>i s. i \<le> length (gems s)"])
  fix i :: nat and s :: App
  assume "Suc i \<le> length (gems s)"
  then show "\<exists>s'. gemBody level cv dt i s = Inr s' \<and> i \<le> length (gems s')"
    by (auto simp: gemBody_def Let_def length_splice1 gems_gemCollect)
qed simp

lemma updateWith_total: "\<exists>st'. updateWith env level cv dt st = Inr st'"
proof -
  obtain st6 where a: "shockwaveLoop dt (fst (prelude env level cv dt st)) = Inr st6"
    using shockwaveLoop_total by blast
  obtain st9 where b: "obstacleLoop level cv dt
      (fst (obstacleSpawnBlock (random env) level cv dt
         (gemSpawnBlock (random env) level cv dt (st6, snd (prelude env level cv dt st))))) = Inr st9"
    using obstacleLoop_total by blast
  obtain st' where c: "gemLoop level cv dt st9 = Inr st'"
    using gemLoop_total by blast
  show ?thesis
    by (simp add: updateWith_def Let_def a b c bindE_def)
qed

lemma update_total: "levelIdxRef st < length LEVELS \<Longrightarrow> \<exists>st'. update env dt st = Inr st'"
  using updateWith_total
  by (simp add: update_def getLevel_def bindE_def split: option.splits)

lemma handler_total:
  assumes "appInv st"
  shows "\<exists>s'. handler env ev st = Inr s'"
proof (cases ev)
  case (Frame time)
  have "levelIdxRef (st\<lparr>lastTime := time\<rparr>) < length LEVELS"
    using assms by (simp add: appInv_def)
  from update_total[OF this] show ?thesis
    by (simp add: Frame loop_def Let_def)
next
  case ClickChargeUp
  have "gameState st = LevelComplete \<Longrightarrow> \<exists>q. makeChargeQuestion (random env) (levelIdx st) = Inr q"
    using assms by (intro makeChargeQuestion_total) (simp add: appInv_def)
  then show ?thesis
    by (auto simp: ClickChargeUp startChargeUp_def bindE_def)
next
  case SubmitCharge
  have "\<exists>q. makeChargeQuestion (random env) (levelIdx st) = Inr q"
    using assms by (intro makeChargeQuestion_total) (simp add: appInv_def)
  then show ?thesis
    by (auto simp: SubmitCharge handleChargeSubmit_def bindE_def)
qed simp_all

lemma reachable_step_total: "reachable st \<Longrightarrow> \<exists>st'. step env ev st = Inr st'"
  using handler_total[OF reachable_appInv, of st env ev] by (auto simp: step_def bindE_def)

subsection \<open>What each event does to the power-up count\<close>

lemma powerUps_commit: "powerUps (commit s) = powerUps s"
  by (simp add: commit_def)

lemma loop_powerUps: "loop env time st = Inr s' \<Longrightarrow> powerUps s' = powerUps st"
  using tickRel_update[of env "frameDelta time st" "st\<lparr>lastTime := time\<rparr>" s']
  by (auto simp: loop_def Let_def tickRel_def split: if_splits)

lemma handleKeyDown_powerUps:
  "powerUps (handleKeyDown env key st) =
     (if key = '' '' \<and> gameStateRef st = Playing \<and> 0 < powerUps st
      then powerUps st - 1 else powerUps st)"
  by (simp add: handleKeyDown_def Let_def)

lemma handleChargeSubmit_powerUps:
  assumes "handleChargeSubmit env st = Inr s'"
  shows "powerUps s' =
     (if chargeCorrect (mathInput st) st \<and> chargeProgress st + 1 \<ge> 3
      then powerUps st + 1 else powerUps st)"
  using assms
  by (auto simp: handleChargeSubmit_def chargeCorrect_def nextLevel_def bindE_Inr Let_def
      split: if_splits)

lemma step_powerUps:
  assumes "step env ev st = Inr st'"
  shows "(ev = SubmitCharge \<and> gameState st = ChargeUp \<and> chargeCorrect (mathInput st) st \<and>
            chargeProgress st + 1 \<ge> 3 \<and> powerUps st' = powerUps st + 1) \<or>
         (ev = KeyDown '' '' \<and> gameStateRef st = Playing \<and> 0 < powerUps st \<and>
            powerUps st' = powerUps st - 1) \<or>
         (ev = ClickStartGame \<and> (gameState st = Start \<or> gameState st = GameComplete) \<and>
            powerUps st' = 0) \<or>
         powerUps st' = powerUps st"
proof -
  from assms obtain s' where h: "handler env ev st = Inr s'" and p: "powerUps st' = powerUps s'"
    by (auto simp: step_def bindE_Inr powerUps_commit)
  show ?thesis
  proof (cases ev)
    case (Frame time)
    with h show ?thesis unfolding p by (simp add: loop_powerUps)
  next
    case (KeyDown key)
    with h have "powerUps s' = powerUps (handleKeyDown env key st)" by auto
    then show ?thesis unfolding p handleKeyDown_powerUps using KeyDown
      by (simp split: if_splits)
  next
    case (KeyUp key)
    with h show ?thesis unfolding p by (auto simp: handleKeyUp_def)
  next
    case ClickStartGame
    with h show ?thesis unfolding p by (auto simp: startGame_def split: if_splits)
  next
    case ClickNextLevel
    with h show ?thesis unfolding p by (auto simp: nextLevel_def split: if_splits)
  next
    case ClickChargeUp
    with h show ?thesis unfolding p by (auto simp: startChargeUp_def bindE_Inr split: if_splits)
  next
    case (ChangeInput v)
    with h show ?thesis unfolding p by (auto simp: changeInput_def split: if_splits)
  next
    case SubmitMath
    with h show ?thesis unfolding p
      by (auto simp: handleMathSubmit_def completeLevel_def Let_def split: if_splits)
  next
    case SubmitCharge
    show ?thesis
    proof (cases "gameState st = ChargeUp")
      case True
      with h SubmitCharge have "handleChargeSubmit env st = Inr s'" by simp
      from handleChargeSubmit_powerUps[OF this] True SubmitCharge show ?thesis
        unfolding p by (simp split: if_splits)
    next
      case False
      with h SubmitCharge show ?thesis unfolding p by simp
    qed
  qed
qed

text \<open>
  Claim C8, as amended. The power-up count is never negative in a reachable state, and
  it is 0 before the first run. An event raises a non-negative count only by completing
  Charge-Up (the third correct answer), and then by exactly 1. An event lowers it only
  as a Pulsar (the space bar while playing, with a count above 0, by exactly 1), or as
  a full restart (\<open>startGame\<close>, from \<open>start\<close> or \<open>game_complete\<close>), which sets
  it to 0. The space bar with a count of 0 changes neither the count nor the obstacles
  nor the shockwaves.
\<close>

theorem C8_power_up_count_changes:
  "(reachable st \<longrightarrow> 0 \<le> powerUps st \<and> (gameState st = Start \<longrightarrow> powerUps st = 0)) \<and>
   (0 \<le> powerUps s \<and> step env ev s = Inr s' \<longrightarrow>
      (powerUps s < powerUps s' \<longrightarrow>
         ev = SubmitCharge \<and> gameState s = ChargeUp \<and> chargeCorrect (mathInput s) s \<and>
         chargeProgress s + 1 \<ge> 3 \<and> powerUps s' = powerUps s + 1) \<and>
      (powerUps s' < powerUps s \<longrightarrow>
         (ev = KeyDown '' '' \<and> gameStateRef s = Playing \<and> powerUps s' = powerUps s - 1) \<or>
         (ev = ClickStartGame \<and> (gameState s = Start \<or> gameState s = GameComplete) \<and>
            powerUps s' = 0))) \<and>
   (powerUps s \<le> 0 \<longrightarrow>
      powerUps (handleKeyDown env '' '' s) = powerUps s \<and>
      obstacles (handleKeyDown env '' '' s) = obstacles s \<and>
      shockwaves (handleKeyDown env '' '' s) = shockwaves s)"
proof (intro conjI impI)
  assume "reachable st"
  then have "appInv st" by (rule reachable_appInv)
  then show "0 \<le> powerUps st" and "gameState st = Start \<Longrightarrow> powerUps st = 0"
    by (simp_all add: appInv_def)
next
  assume "0 \<le> powerUps s \<and> step env ev s = Inr s'" and "powerUps s < powerUps s'"
  then show "ev = SubmitCharge" "gameState s = ChargeUp" "chargeCorrect (mathInput s) s"
    "chargeProgress s + 1 \<ge> 3" "powerUps s' = powerUps s + 1"
    using step_powerUps[of env ev s s'] by auto
next
  assume "0 \<le> powerUps s \<and> step env ev s = Inr s'" and "powerUps s' < powerUps s"
  then show "(ev = KeyDown '' '' \<and> gameStateRef s = Playing \<and> powerUps s' = powerUps s - 1) \<or>
         (ev = ClickStartGame \<and> (gameState s = Start \<or> gameState s = GameComplete) \<and>
            powerUps s' = 0)"
    using step_powerUps[of env ev s s'] by auto
next
  assume "powerUps s \<le> 0"
  then show "powerUps (handleKeyDown env '' '' s) = powerUps s"
    "obstacles (handleKeyDown env '' '' s) = obstacles s"
    "shockwaves (handleKeyDown env '' '' s) = shockwaves s"
    by (simp_all add: handleKeyDown_def Let_def)
qed


theorem C8_power_up_count_changes_witness:
  "powerUps (initApp demoEnv) = 0 \<and>
   (\<exists>s'. step demoEnv SubmitCharge (chargeDemo\<lparr>chargeProgress := 2\<rparr>) = Inr s' \<and>
      powerUps s' = powerUps chargeDemo + 1) \<and>
   (\<exists>s'. step demoEnv (KeyDown '' '') (playDemo\<lparr>powerUps := 2\<rparr>) = Inr s' \<and>
      powerUps s' = 1) \<and>
   (\<exists>s'. step demoEnv ClickStartGame wonDemo = Inr s' \<and> powerUps s' = 0) \<and>
   obstacles (handleKeyDown demoEnv '' '' playDemo) = obstacles playDemo"
proof -
  note C8 = C8_power_up_count_changes
  have p2: "parseInt ''2'' = Some 2"
    by (simp add: parseInt_defs)
  have demo: "powerUps demoApp = 0" "powerUps chargeDemo = 0" "powerUps playDemo = 0"
    "powerUps wonDemo = 2"
    by (simp_all add: demoApp_def initApp_def chargeDemo_def playDemo_def wonDemo_def)
  have "powerUps (initApp demoEnv) = 0"
    using C8[of "initApp demoEnv"] reachable_init[of demoEnv] by (simp add: initApp_def)
  moreover
  let ?c = "chargeDemo\<lparr>chargeProgress := 2\<rparr>"
  let ?c' = "commit (nextLevel demoEnv (?c\<lparr>powerUps := 1\<rparr>))"
  have c: "step demoEnv SubmitCharge ?c = Inr ?c'"
    by (simp add: step_def bindE_def handleChargeSubmit_def chargeExpected_def answerIs_def p2
        chargeDemo_def demoApp_def initApp_def)
  have "powerUps ?c' = powerUps ?c + 1"
    using C8[of "initApp demoEnv" ?c demoEnv SubmitCharge ?c'] c
    by (simp add: demo commit_def nextLevel_def)
  then have "\<exists>s'. step demoEnv SubmitCharge ?c = Inr s' \<and> powerUps s' = powerUps chargeDemo + 1"
    using c by simp
  moreover
  let ?p = "playDemo\<lparr>powerUps := 2\<rparr>"
  let ?p' = "commit (handleKeyDown demoEnv '' '' ?p)"
  have p: "step demoEnv (KeyDown '' '') ?p = Inr ?p'"
    by (simp add: step_def bindE_def)
  have lt: "powerUps ?p' < powerUps ?p"
    by (simp add: commit_def handleKeyDown_def playDemo_def)
  have "powerUps ?p' = powerUps ?p - 1"
    using C8[of "initApp demoEnv" ?p demoEnv "KeyDown '' ''" ?p'] p lt by simp
  then have "\<exists>s'. step demoEnv (KeyDown '' '') ?p = Inr s' \<and> powerUps s' = 1"
    using p by simp
  moreover
  let ?w' = "commit (startGame demoEnv wonDemo)"
  have w: "step demoEnv ClickStartGame wonDemo = Inr ?w'"
    by (simp add: step_def bindE_def wonDemo_def)
  have "powerUps ?w' < powerUps wonDemo"
    by (simp add: commit_def startGame_def demo)
  then have "powerUps ?w' = 0"
    using C8[of "initApp demoEnv" wonDemo demoEnv ClickStartGame ?w'] w by (simp add: demo)
  then have "\<exists>s'. step demoEnv ClickStartGame wonDemo = Inr s' \<and> powerUps s' = 0"
    using w by simp
  moreover have "obstacles (handleKeyDown demoEnv '' '' playDemo) = obstacles playDemo"
    using C8[of "initApp demoEnv" playDemo demoEnv] by (simp add: demo)
  ultimately show ?thesis by blast
qed

theorem C8_power_up_count_changes_counterexample:
  "step demoEnv ClickStartGame wonDemo = Inr (commit (startGame demoEnv wonDemo)) \<and>
   powerUps wonDemo = 2 \<and> powerUps (commit (startGame demoEnv wonDemo)) = 0 \<and>
   ClickStartGame \<noteq> KeyDown '' ''"
  by (simp add: step_def bindE_def wonDemo_def commit_def startGame_def)


subsection \<open>The frame tick and the level transitions\<close>

text \<open>
  Claim C9. A frame tick in which the state read by the loop is not \<open>playing\<close>
  changes nothing at all: no movement, no spawning, no collision, no timer. In a
  reachable state the ref read by the loop is the game state itself, so this holds for
  every modal state. When the state is \<open>playing\<close>, the tick is exactly the physics
  step \<open>update\<close> run with the time since \<open>lastTime\<close> (the previous tick, or the
  start of the level), clamped to at most 50, after \<open>lastTime\<close> is set to the timestamp.
\<close>

theorem C9_tick_gated_and_clamped:
  "(gameStateRef st \<noteq> Playing \<longrightarrow> loop env time st = Inr st) \<and>
   (gameStateRef st = Playing \<longrightarrow>
      loop env time st = update env (min (time - lastTime st) 50) (st\<lparr>lastTime := time\<rparr>)) \<and>
   frameDelta time st = min (time - lastTime st) 50 \<and> frameDelta time st \<le> 50 \<and>
   (reachable st \<longrightarrow> gameStateRef st = gameState st \<and>
      (gameState st \<noteq> Playing \<longrightarrow> step env (Frame time) st = Inr st))"
proof -
  have d: "frameDelta time st = min (time - lastTime st) 50"
    by (simp add: frameDelta_def Let_def min_def)
  have r: "gameStateRef st = gameState st \<and>
      (gameState st \<noteq> Playing \<longrightarrow> step env (Frame time) st = Inr st)" if "reachable st"
  proof -
    from that have "appInv st" by (rule reachable_appInv)
    then have s: "gameStateRef st = gameState st" "levelIdxRef st = levelIdx st"
      by (simp_all add: appInv_def)
    then have "commit st = st" by (simp add: commit_def)
    then show ?thesis using s by (simp add: step_def loop_def bindE_def)
  qed
  show ?thesis
    using r by (simp add: loop_def d)
qed

theorem C9_tick_gated_and_clamped_witness:
  "loop demoEnv 5000 chargeDemo = Inr chargeDemo \<and>
   loop demoEnv 5000 playDemo = update demoEnv 50 (playDemo\<lparr>lastTime := 5000\<rparr>) \<and>
   loop demoEnv 16 playDemo = update demoEnv 16 (playDemo\<lparr>lastTime := 16\<rparr>) \<and>
   step demoEnv (Frame 5000) (initApp demoEnv) = Inr (initApp demoEnv)"
  using C9_tick_gated_and_clamped[of chargeDemo demoEnv 5000]
    C9_tick_gated_and_clamped[of playDemo demoEnv 5000]
    C9_tick_gated_and_clamped[of playDemo demoEnv 16]
    C9_tick_gated_and_clamped[of "initApp demoEnv" demoEnv 5000] reachable_init[of demoEnv]
  by (simp add: chargeDemo_def playDemo_def demoApp_def initApp_def)

text \<open>
  Claim C10. \<open>nextLevel\<close>, whether reached by \<open>Continue to Next Level\<close> or by
  completing Charge-Up, resets the numerator, the history, the gems, the obstacles, the
  shockwaves and the ship position, moves to the next level index and to \<open>playing\<close>,
  and leaves the power-up count as it finds it (after Charge-Up: with the credit just
  earned). \<open>startGame\<close> sets the count to 0. No other event zeroes a positive count,
  except the space bar spending the last power-up.
\<close>

theorem C10_next_level_keeps_power_ups:
  "(currentNumerator (nextLevel env st) = 0 \<and> collectedHistory (nextLevel env st) = [] \<and>
    gems (nextLevel env st) = [] \<and> obstacles (nextLevel env st) = [] \<and>
    shockwaves (nextLevel env st) = [] \<and> shipX (nextLevel env st) = innerWidth env / 2 \<and>
    shipY (nextLevel env st) = innerHeight env - 80 \<and>
    levelIdx (nextLevel env st) = levelIdx st + 1 \<and> gameState (nextLevel env st) = Playing \<and>
    powerUps (nextLevel env st) = powerUps st) \<and>
   (gameState st = LevelComplete \<longrightarrow>
      step env ClickNextLevel st = Inr (commit (nextLevel env st))) \<and>
   (gameState st = ChargeUp \<and> chargeCorrect (mathInput st) st \<and> chargeProgress st + 1 \<ge> 3 \<longrightarrow>
      step env SubmitCharge st = Inr (commit (nextLevel env (st\<lparr>powerUps := powerUps st + 1\<rparr>)))) \<and>
   powerUps (startGame env st) = 0 \<and>
   (gameState st = Start \<or> gameState st = GameComplete \<longrightarrow>
      step env ClickStartGame st = Inr (commit (startGame env st))) \<and>
   (step env ev st = Inr st' \<and> 0 < powerUps st \<and> powerUps st' = 0 \<longrightarrow>
      ev = ClickStartGame \<or> (ev = KeyDown '' '' \<and> powerUps st = 1))"
proof (intro conjI impI)
  assume "gameState st = ChargeUp \<and> chargeCorrect (mathInput st) st \<and> chargeProgress st + 1 \<ge> 3"
  then show "step env SubmitCharge st =
      Inr (commit (nextLevel env (st\<lparr>powerUps := powerUps st + 1\<rparr>)))"
    by (simp add: step_def bindE_def handleChargeSubmit_def chargeCorrect_def)
next
  assume "step env ev st = Inr st' \<and> 0 < powerUps st \<and> powerUps st' = 0"
  then show "ev = ClickStartGame \<or> (ev = KeyDown '' '' \<and> powerUps st = 1)"
    using step_powerUps[of env ev st st'] by auto
qed (simp_all add: nextLevel_def startGame_def step_def bindE_def)

theorem C10_next_level_keeps_power_ups_witness:
  "powerUps (nextLevel demoEnv (demoApp\<lparr>powerUps := 2, gameState := LevelComplete\<rparr>)) = 2 \<and>
   step demoEnv ClickNextLevel (demoApp\<lparr>powerUps := 2, gameState := LevelComplete\<rparr>) =
     Inr (commit (nextLevel demoEnv (demoApp\<lparr>powerUps := 2, gameState := LevelComplete\<rparr>))) \<and>
   step demoEnv SubmitCharge (chargeDemo\<lparr>chargeProgress := 2\<rparr>) =
     Inr (commit (nextLevel demoEnv (chargeDemo\<lparr>chargeProgress := 2, powerUps := 1\<rparr>))) \<and>
   step demoEnv ClickStartGame wonDemo = Inr (commit (startGame demoEnv wonDemo)) \<and>
   powerUps (startGame demoEnv wonDemo) = 0"
  using C10_next_level_keeps_power_ups[of demoEnv "demoApp\<lparr>powerUps := 2, gameState := LevelComplete\<rparr>"]
    C10_next_level_keeps_power_ups[of demoEnv "chargeDemo\<lparr>chargeProgress := 2\<rparr>"]
    C10_next_level_keeps_power_ups[of demoEnv wonDemo ClickStartGame "commit (startGame demoEnv wonDemo)"]
  by (simp add: chargeCorrect_def chargeExpected_def answerIs_def parseInt_defs chargeDemo_def
      wonDemo_def demoApp_def initApp_def)

subsection \<open>The numerator and the history\<close>

lemma numInv_of_tickRel: "tickRel st s' \<Longrightarrow> numInv st \<Longrightarrow> numInv s'"
  by (simp add: tickRel_def)

lemma numInv_gemCollect: "numInv s \<Longrightarrow> numInv (gemCollect level gem s)"
  using tickRel_gemCollect[OF tickRel_refl] by (rule numInv_of_tickRel)

lemma numInv_collections:
  "numInv s \<Longrightarrow> numInv (foldl (\<lambda>a g. gemCollect level g a) s gs)"
  by (induction gs arbitrary: s) (simp_all add: numInv_gemCollect)

text \<open>
  Claim C1. In every reachable state \<open>currentNumerator\<close> equals the sum of
  \<open>collectedHistory\<close>. From a state \<open>s\<close> where they agree, and after any sequence
  \<open>gs\<close> of gem collections on a level, they agree again immediately after the next
  collection has added and appended its gem's numerator (before the clamp and the target
  check), and after that collection as a whole; they also agree after every iteration of
  the obstacle loop and of the gem loop, and after the whole physics step. Every
  operation that resets one of them resets both: an obstacle hit, the underflow clamp
  when it fires, the overshoot branch, \<open>startGame\<close> and \<open>nextLevel\<close> all leave the
  numerator 0 and the history empty; the clamp and the target check change neither when
  they do not fire.
\<close>

theorem C1_numerator_is_sum_of_history:
  "(reachable st \<longrightarrow> currentNumerator st = sum_list (collectedHistory st)) \<and>
   (currentNumerator s = sum_list (collectedHistory s) \<longrightarrow>
      currentNumerator (gemAccumulate gem (foldl (\<lambda>a g. gemCollect level g a) s gs)) =
        sum_list (collectedHistory (gemAccumulate gem (foldl (\<lambda>a g. gemCollect level g a) s gs))) \<and>
      currentNumerator (gemCollect level gem (foldl (\<lambda>a g. gemCollect level g a) s gs)) =
        sum_list (collectedHistory (gemCollect level gem (foldl (\<lambda>a g. gemCollect level g a) s gs))) \<and>
      (obsBody level cv dt i s = Inr s1 \<longrightarrow> currentNumerator s1 = sum_list (collectedHistory s1)) \<and>
      (gemBody level cv dt i s = Inr s2 \<longrightarrow> currentNumerator s2 = sum_list (collectedHistory s2)) \<and>
      (update env dt s = Inr s3 \<longrightarrow> currentNumerator s3 = sum_list (collectedHistory s3))) \<and>
   (currentNumerator (obstacleHit s) = 0 \<and> collectedHistory (obstacleHit s) = []) \<and>
   (currentNumerator s < 0 \<longrightarrow>
      currentNumerator (underflowClamp s) = 0 \<and> collectedHistory (underflowClamp s) = []) \<and>
   (\<not> currentNumerator s < 0 \<longrightarrow> underflowClamp s = s) \<and>
   (currentNumerator s > targetNumerator level \<longrightarrow>
      currentNumerator (targetCheck level s) = 0 \<and> collectedHistory (targetCheck level s) = []) \<and>
   (\<not> currentNumerator s > targetNumerator level \<longrightarrow>
      currentNumerator (targetCheck level s) = currentNumerator s \<and>
      collectedHistory (targetCheck level s) = collectedHistory s) \<and>
   (currentNumerator (startGame env s) = 0 \<and> collectedHistory (startGame env s) = []) \<and>
   (currentNumerator (nextLevel env s) = 0 \<and> collectedHistory (nextLevel env s) = [])"
proof -
  let ?run = "foldl (\<lambda>a g. gemCollect level g a) s gs"
  have reach: "currentNumerator st = sum_list (collectedHistory st)" if "reachable st"
    using reachable_appInv[OF that] by (simp add: appInv_def numInv_def)
  have keep: "currentNumerator (gemAccumulate gem ?run) =
        sum_list (collectedHistory (gemAccumulate gem ?run)) \<and>
      currentNumerator (gemCollect level gem ?run) =
        sum_list (collectedHistory (gemCollect level gem ?run)) \<and>
      (obsBody level cv dt i s = Inr s1 \<longrightarrow> currentNumerator s1 = sum_list (collectedHistory s1)) \<and>
      (gemBody level cv dt i s = Inr s2 \<longrightarrow> currentNumerator s2 = sum_list (collectedHistory s2)) \<and>
      (update env dt s = Inr s3 \<longrightarrow> currentNumerator s3 = sum_list (collectedHistory s3))"
    if "currentNumerator s = sum_list (collectedHistory s)"
  proof -
    from that have n: "numInv s" by (simp add: numInv_def)
    then have r: "numInv ?run" by (rule numInv_collections)
    have "numInv (gemAccumulate gem ?run)"
      using tickRel_gemAccumulate[OF tickRel_refl] r by (rule numInv_of_tickRel)
    moreover have "numInv (gemCollect level gem ?run)"
      using r by (rule numInv_gemCollect)
    moreover have "numInv s1" if "obsBody level cv dt i s = Inr s1"
      using tickRel_obsBody[OF tickRel_refl that] n by (rule numInv_of_tickRel)
    moreover have "numInv s2" if "gemBody level cv dt i s = Inr s2"
      using tickRel_gemBody[OF tickRel_refl that] n by (rule numInv_of_tickRel)
    moreover have "numInv s3" if "update env dt s = Inr s3"
      using tickRel_update[OF that] n by (rule numInv_of_tickRel)
    ultimately show ?thesis by (simp add: numInv_def)
  qed
  have resets: "currentNumerator (obstacleHit s) = 0 \<and> collectedHistory (obstacleHit s) = []"
    "currentNumerator (startGame env s) = 0 \<and> collectedHistory (startGame env s) = []"
    "currentNumerator (nextLevel env s) = 0 \<and> collectedHistory (nextLevel env s) = []"
    by (simp_all add: obstacleHit_def startGame_def nextLevel_def)
  have clamp: "currentNumerator s < 0 \<longrightarrow>
      currentNumerator (underflowClamp s) = 0 \<and> collectedHistory (underflowClamp s) = []"
    "\<not> currentNumerator s < 0 \<longrightarrow> underflowClamp s = s"
    by (simp_all add: underflowClamp_def)
  have over: "currentNumerator s > targetNumerator level \<longrightarrow>
      currentNumerator (targetCheck level s) = 0 \<and> collectedHistory (targetCheck level s) = []"
    by (simp add: targetCheck_def)
  have under: "\<not> currentNumerator s > targetNumerator level \<longrightarrow>
      currentNumerator (targetCheck level s) = currentNumerator s \<and>
      collectedHistory (targetCheck level s) = collectedHistory s"
    by (simp add: targetCheck_def completeLevel_def)
  show ?thesis
    apply (rule conjI, rule impI, erule reach)
    apply (rule conjI, rule impI, erule keep)
    apply (rule conjI, rule resets(1))
    apply (rule conjI, rule clamp(1))
    apply (rule conjI, rule clamp(2))
    apply (rule conjI, rule over)
    apply (rule conjI, rule under)
    apply (rule conjI, rule resets(2))
    apply (rule resets(3))
    done
qed

theorem C1_numerator_is_sum_of_history_witness:
  "currentNumerator (initApp demoEnv) = sum_list (collectedHistory (initApp demoEnv)) \<and>
   collectedHistory (gemAccumulate (demoGem 2)
     (foldl (\<lambda>a g. gemCollect (LEVELS ! 1) g a) playDemo [demoGem 3, demoGem (- 1)])) = [3, - 1, 2] \<and>
   currentNumerator (gemAccumulate (demoGem 2)
     (foldl (\<lambda>a g. gemCollect (LEVELS ! 1) g a) playDemo [demoGem 3, demoGem (- 1)])) = 4 \<and>
   collectedHistory (gemAccumulate (demoGem (- 2)) (playDemo\<lparr>currentNumerator := 1, collectedHistory := [1]\<rparr>)) = [1, - 2] \<and>
   currentNumerator (gemAccumulate (demoGem (- 2)) (playDemo\<lparr>currentNumerator := 1, collectedHistory := [1]\<rparr>)) = - 1 \<and>
   currentNumerator (gemCollect (LEVELS ! 1) (demoGem (- 2)) (playDemo\<lparr>currentNumerator := 1, collectedHistory := [1]\<rparr>)) = 0 \<and>
   collectedHistory (gemCollect (LEVELS ! 1) (demoGem (- 2)) (playDemo\<lparr>currentNumerator := 1, collectedHistory := [1]\<rparr>)) = [] \<and>
   collectedHistory (targetCheck (LEVELS ! 1) (playDemo\<lparr>currentNumerator := 5, collectedHistory := [3, 2]\<rparr>)) = []"
proof -
  let ?s = "playDemo\<lparr>currentNumerator := 1, collectedHistory := [1]\<rparr>"
  let ?o = "playDemo\<lparr>currentNumerator := 5, collectedHistory := [3, 2]\<rparr>"
  let ?r = "foldl (\<lambda>a g. gemCollect (LEVELS ! 1) g a) playDemo [demoGem 3, demoGem (- 1)]"
  note C1 = C1_numerator_is_sum_of_history
  have a: "currentNumerator ?s = sum_list (collectedHistory ?s)" by simp
  have b: "currentNumerator playDemo = sum_list (collectedHistory playDemo)"
    by (simp add: playDemo_def demoApp_def initApp_def)
  have w1: "currentNumerator (initApp demoEnv) = sum_list (collectedHistory (initApp demoEnv))"
    using C1[THEN conjunct1, of "initApp demoEnv"] reachable_init[of demoEnv] by (rule mp)
  have hr: "collectedHistory (gemAccumulate (demoGem 2) ?r) = [3, - 1, 2]"
    by (simp add: gemCollect_defs demoGem_def LEVELS_def playDemo_def demoApp_def initApp_def)
  have "currentNumerator (gemAccumulate (demoGem 2) ?r) =
      sum_list (collectedHistory (gemAccumulate (demoGem 2) ?r))"
    using C1[where gs = "[demoGem 3, demoGem (- 1)]", THEN conjunct2, THEN conjunct1, THEN mp,
        OF b, THEN conjunct1] .
  then have w0: "currentNumerator (gemAccumulate (demoGem 2) ?r) = 4"
    by (simp only: hr) simp
  have "currentNumerator (gemAccumulate (demoGem (- 2)) ?s) =
      sum_list (collectedHistory (gemAccumulate (demoGem (- 2)) ?s))"
    using C1[where gs = "[]", THEN conjunct2, THEN conjunct1, THEN mp, OF a, THEN conjunct1]
    by simp
  moreover have h: "collectedHistory (gemAccumulate (demoGem (- 2)) ?s) = [1, - 2]"
    by (simp add: gemAccumulate_def demoGem_def)
  ultimately have w2: "currentNumerator (gemAccumulate (demoGem (- 2)) ?s) = - 1"
    by simp
  then have "currentNumerator (gemAccumulate (demoGem (- 2)) ?s) < 0"
    by simp
  then have c: "currentNumerator (underflowClamp (gemAccumulate (demoGem (- 2)) ?s)) = 0 \<and>
      collectedHistory (underflowClamp (gemAccumulate (demoGem (- 2)) ?s)) = []"
    by (rule C1[THEN conjunct2, THEN conjunct2, THEN conjunct2, THEN conjunct1, THEN mp])
  have t: "\<not> targetNumerator (LEVELS ! 1) <
      currentNumerator (underflowClamp (gemAccumulate (demoGem (- 2)) ?s))"
    using c by (simp add: LEVELS_def)
  have w3: "currentNumerator (gemCollect (LEVELS ! 1) (demoGem (- 2)) ?s) = 0 \<and>
      collectedHistory (gemCollect (LEVELS ! 1) (demoGem (- 2)) ?s) = []"
    using C1[THEN conjunct2, THEN conjunct2, THEN conjunct2, THEN conjunct2, THEN conjunct2,
        THEN conjunct2, THEN conjunct1, THEN mp, OF t] c
    by (simp add: gemCollect_def gemOutcome_def)
  have "targetNumerator (LEVELS ! 1) < currentNumerator ?o"
    by (simp add: LEVELS_def)
  then have w4: "currentNumerator (targetCheck (LEVELS ! 1) ?o) = 0 \<and>
      collectedHistory (targetCheck (LEVELS ! 1) ?o) = []"
    by (rule C1[THEN conjunct2, THEN conjunct2, THEN conjunct2, THEN conjunct2, THEN conjunct2,
        THEN conjunct1, THEN mp])
  show ?thesis
    using w1 hr w0 w2 h w3 w4 by simp
qed

subsection \<open>Gems of the spawner stay below the target\<close>

text \<open>
  With \<open>Math.random()\<close> in \<open>[0, 1)\<close>, a spawned gem's numerator is nonzero and
  smaller in magnitude than the denominator, hence than the target of its level: on
  the catalog a run never reaches the target with its first gem.
\<close>

lemma LEVELS_denominator:
  "level \<in> set LEVELS \<Longrightarrow> 2 \<le> denominator level \<and> denominator level \<le> targetNumerator level"
  by (auto simp: LEVELS_def)

lemma spawnGem_numerator_range:
  assumes "level \<in> set LEVELS" and "0 \<le> rnd (k + 1)" and "rnd (k + 1) < 1"
  shows "gem_numerator (spawnGem rnd k level w) \<noteq> 0 \<and>
         \<bar>gem_numerator (spawnGem rnd k level w)\<bar> < denominator level \<and>
         \<bar>gem_numerator (spawnGem rnd k level w)\<bar> < targetNumerator level"
proof -
  let ?d = "denominator level"
  define n where "n = \<lfloor>rnd (k + 1) * real_of_int (?d - 1)\<rfloor>"
  from LEVELS_denominator[OF assms(1)] have d: "2 \<le> ?d" and t: "?d \<le> targetNumerator level"
    by simp_all
  have "0 \<le> rnd (k + 1) * real_of_int (?d - 1)"
    using assms(2) d by simp
  then have lo: "0 \<le> n" by (simp add: n_def)
  have "rnd (k + 1) * real_of_int (?d - 1) < 1 * real_of_int (?d - 1)"
    using assms(3) d by (intro mult_strict_right_mono) simp_all
  then have hi: "n < ?d - 1"
    by (simp add: n_def floor_less_iff)
  have num: "gem_numerator (spawnGem rnd k level w) = (if rnd k < 3 / 10 then - (n + 1) else n + 1)"
    by (simp add: spawnGem_def Let_def n_def)
  show ?thesis
    unfolding num using lo hi t by (cases "rnd k < 3 / 10") simp_all
qed

end
